theory Spec2Isabelle
  imports Main "HOL-Library.Sublist" "HOL-Library.Word"
begin

section \<open>Python values and exceptions\<close>

text \<open>
  The module \<^verbatim>\<open>pipecat/services/gemini_multimodal_live/events.py\<close> declares pydantic
  models and two functions with behaviour of their own: \<^verbatim>\<open>parse_server_event\<close> and
  \<^verbatim>\<open>AudioInputMessage.from_raw_audio\<close>.

  A value handed to a pydantic validator is a Python object. The objects that
  \<^verbatim>\<open>json.loads\<close> builds are \<^verbatim>\<open>None\<close>, \<^verbatim>\<open>bool\<close>, \<^verbatim>\<open>int\<close>, \<^verbatim>\<open>float\<close>, \<^verbatim>\<open>str\<close>,
  \<^verbatim>\<open>list\<close> and \<^verbatim>\<open>dict\<close> with \<^verbatim>\<open>str\<close> keys. A \<^verbatim>\<open>dict\<close> is an association list that is
  read with \<open>map_of\<close>. Floating point numbers are not interpreted: their type is the
  parameter \<open>'f\<close>. A \<open>char\<close> stands for one code point of a Python \<^verbatim>\<open>str\<close>, so that
  \<open>length\<close> is Python's \<^verbatim>\<open>len\<close>.
\<close>

datatype 'f pyobj =
    PyNone
  | PyBool bool
  | PyInt int
  | PyFloat 'f
  | PyStr string
  | PyList "'f pyobj list"
  | PyDict "(string \<times> 'f pyobj) list"

text \<open>
  The exceptions the modelled operations raise. Each of these classes derives from
  \<^verbatim>\<open>Exception\<close>, so the clause \<^verbatim>\<open>except Exception\<close> catches every one of them.
\<close>

datatype exn =
  JSONDecodeError | RecursionError | TypeError | KeyError | ValueError | ValidationError

definition exn_bind :: "exn + 'a \<Rightarrow> ('a \<Rightarrow> exn + 'b) \<Rightarrow> exn + 'b" where
  "exn_bind m f = (case m of Inl e \<Rightarrow> Inl e | Inr x \<Rightarrow> f x)"

text \<open>
  Code of libraries that the module calls and whose text is not part of the repository is
  a parameter: \<^verbatim>\<open>json.loads\<close>, and the conversions pydantic's default (lax) mode tries
  when a value is not of the exact type of an \<^verbatim>\<open>int\<close>, \<^verbatim>\<open>bool\<close> or \<^verbatim>\<open>float\<close> field
  (numeric strings, integral floats, 0 and 1 for booleans and so on).
\<close>

record 'f library =
  json_loads :: "string \<Rightarrow> exn + 'f pyobj"
  lax_int :: "'f pyobj \<Rightarrow> int option"
  lax_bool :: "'f pyobj \<Rightarrow> bool option"
  lax_float :: "'f pyobj \<Rightarrow> 'f option"

text \<open>\<^verbatim>\<open>key in obj\<close> and \<^verbatim>\<open>obj[key]\<close> for a \<^verbatim>\<open>str\<close> key, on any object.\<close>

fun py_contains :: "string \<Rightarrow> 'f pyobj \<Rightarrow> exn + bool" where
  "py_contains k (PyDict kvs) = Inr (map_of kvs k \<noteq> None)"
| "py_contains k (PyList xs) = Inr (PyStr k \<in> set xs)"
| "py_contains k (PyStr s) = Inr (sublist k s)"
| "py_contains k _ = Inl TypeError"

fun py_getitem :: "'f pyobj \<Rightarrow> string \<Rightarrow> exn + 'f pyobj" where
  "py_getitem (PyDict kvs) k = (case map_of kvs k of None \<Rightarrow> Inl KeyError | Some v \<Rightarrow> Inr v)"
| "py_getitem _ k = Inl TypeError"

section \<open>Pydantic validation\<close>

text \<open>
  Scalar fields. A value of the exact type is taken as it is; any other value goes
  through the lax conversion of the field's type. A \<^verbatim>\<open>str\<close> field and a \<^verbatim>\<open>dict\<close> field
  have no conversion from the other objects of \<open>pyobj\<close>.
\<close>

definition validate_str :: "'f pyobj \<Rightarrow> exn + string" where
  "validate_str v = (case v of PyStr s \<Rightarrow> Inr s | _ \<Rightarrow> Inl ValidationError)"

definition validate_int :: "'f library \<Rightarrow> 'f pyobj \<Rightarrow> exn + int" where
  "validate_int L v =
     (case v of
        PyInt i \<Rightarrow> Inr i
      | _ \<Rightarrow> (case lax_int L v of Some i \<Rightarrow> Inr i | None \<Rightarrow> Inl ValidationError))"

definition validate_bool :: "'f library \<Rightarrow> 'f pyobj \<Rightarrow> exn + bool" where
  "validate_bool L v =
     (case v of
        PyBool b \<Rightarrow> Inr b
      | _ \<Rightarrow> (case lax_bool L v of Some b \<Rightarrow> Inr b | None \<Rightarrow> Inl ValidationError))"

definition validate_float :: "'f library \<Rightarrow> 'f pyobj \<Rightarrow> exn + 'f" where
  "validate_float L v =
     (case v of
        PyFloat x \<Rightarrow> Inr x
      | _ \<Rightarrow> (case lax_float L v of Some x \<Rightarrow> Inr x | None \<Rightarrow> Inl ValidationError))"

definition validate_dict :: "'f pyobj \<Rightarrow> exn + (string \<times> 'f pyobj) list" where
  "validate_dict v = (case v of PyDict kvs \<Rightarrow> Inr kvs | _ \<Rightarrow> Inl ValidationError)"

text \<open>\<^verbatim>\<open>List[T]\<close>: the value is a list and every item validates as \<^verbatim>\<open>T\<close>.\<close>

fun validate_items :: "('a \<Rightarrow> exn + 'b) \<Rightarrow> 'a list \<Rightarrow> exn + 'b list" where
  "validate_items item [] = Inr []"
| "validate_items item (x # xs) =
     exn_bind (item x) (\<lambda>y. exn_bind (validate_items item xs) (\<lambda>ys. Inr (y # ys)))"

definition validate_list :: "('f pyobj \<Rightarrow> exn + 'b) \<Rightarrow> 'f pyobj \<Rightarrow> exn + 'b list" where
  "validate_list item v = (case v of PyList xs \<Rightarrow> validate_items item xs | _ \<Rightarrow> Inl ValidationError)"

text \<open>\<^verbatim>\<open>Optional[T]\<close>: \<^verbatim>\<open>None\<close> is valid and stays \<^verbatim>\<open>None\<close>; any other value validates as \<^verbatim>\<open>T\<close>.\<close>

definition nullable :: "('f pyobj \<Rightarrow> exn + 'b) \<Rightarrow> 'f pyobj \<Rightarrow> exn + 'b option" where
  "nullable validate v =
     (case v of PyNone \<Rightarrow> Inr None | _ \<Rightarrow> exn_bind (validate v) (\<lambda>x. Inr (Some x)))"

text \<open>
  The fields of a model, read from the \<^verbatim>\<open>dict\<close> under validation. A field declared
  without a default is required. A field declared with a default takes the default, not
  validated, when its key is missing. Keys that name no field are never read: pydantic's
  default configuration ignores them.
\<close>

definition required_field ::
  "string \<Rightarrow> ('f pyobj \<Rightarrow> exn + 'b) \<Rightarrow> (string \<times> 'f pyobj) list \<Rightarrow> exn + 'b" where
  "required_field k validate kvs =
     (case map_of kvs k of None \<Rightarrow> Inl ValidationError | Some v \<Rightarrow> validate v)"

definition field_with_default ::
  "string \<Rightarrow> 'b \<Rightarrow> ('f pyobj \<Rightarrow> exn + 'b) \<Rightarrow> (string \<times> 'f pyobj) list \<Rightarrow> exn + 'b" where
  "field_with_default k d validate kvs =
     (case map_of kvs k of None \<Rightarrow> Inr d | Some v \<Rightarrow> validate v)"

text \<open>A model validates a \<^verbatim>\<open>dict\<close>; no other object of \<open>pyobj\<close> is an instance of it.\<close>

definition validate_model ::
  "((string \<times> 'f pyobj) list \<Rightarrow> exn + 'b) \<Rightarrow> 'f pyobj \<Rightarrow> exn + 'b" where
  "validate_model of_dict v = (case v of PyDict kvs \<Rightarrow> of_dict kvs | _ \<Rightarrow> Inl ValidationError)"

section \<open>Client events\<close>

text \<open>
  Each class of the module is a record with the class's fields, and a validator that
  follows the field declarations one by one. A field \<^verbatim>\<open>text\<close> is written \<open>text'\<close> and a
  field \<^verbatim>\<open>id\<close> is written \<open>id'\<close>. Constructing an instance from keyword arguments
  validates the \<^verbatim>\<open>dict\<close> of the arguments in the same way.
\<close>

record MediaChunk =
  mimeType :: string
  data :: string

definition validate_MediaChunk :: "'f pyobj \<Rightarrow> exn + MediaChunk" where
  "validate_MediaChunk = validate_model (\<lambda>kvs.
     exn_bind (required_field ''mimeType'' validate_str kvs) (\<lambda>m.
     exn_bind (required_field ''data'' validate_str kvs) (\<lambda>d.
     Inr \<lparr>MediaChunk.mimeType = m, MediaChunk.data = d\<rparr>)))"

record FileData =
  mimeType :: string
  fileUri :: string

definition validate_FileData :: "'f pyobj \<Rightarrow> exn + FileData" where
  "validate_FileData = validate_model (\<lambda>kvs.
     exn_bind (required_field ''mimeType'' validate_str kvs) (\<lambda>m.
     exn_bind (required_field ''fileUri'' validate_str kvs) (\<lambda>u.
     Inr \<lparr>FileData.mimeType = m, FileData.fileUri = u\<rparr>)))"

record ContentPart =
  text' :: "string option"
  inlineData :: "MediaChunk option"
  fileData :: "FileData option"

definition validate_ContentPart :: "'f pyobj \<Rightarrow> exn + ContentPart" where
  "validate_ContentPart = validate_model (\<lambda>kvs.
     exn_bind (field_with_default ''text'' None (nullable validate_str) kvs) (\<lambda>t.
     exn_bind (field_with_default ''inlineData'' None (nullable validate_MediaChunk) kvs) (\<lambda>i.
     exn_bind (field_with_default ''fileData'' None (nullable validate_FileData) kvs) (\<lambda>f.
     Inr \<lparr>ContentPart.text' = t, ContentPart.inlineData = i, ContentPart.fileData = f\<rparr>))))"

text \<open>\<^verbatim>\<open>Literal["user", "model"]\<close>: the value is one of the two strings.\<close>

definition validate_role :: "'f pyobj \<Rightarrow> exn + string" where
  "validate_role v =
     (case v of
        PyStr s \<Rightarrow> if s = ''user'' \<or> s = ''model'' then Inr s else Inl ValidationError
      | _ \<Rightarrow> Inl ValidationError)"

record Turn =
  role :: string
  parts :: "ContentPart list"

definition validate_Turn :: "'f pyobj \<Rightarrow> exn + Turn" where
  "validate_Turn = validate_model (\<lambda>kvs.
     exn_bind (field_with_default ''role'' ''user'' validate_role kvs) (\<lambda>r.
     exn_bind (required_field ''parts'' (validate_list validate_ContentPart) kvs) (\<lambda>ps.
     Inr \<lparr>Turn.role = r, Turn.parts = ps\<rparr>)))"

text \<open>
  An enumeration that derives from \<^verbatim>\<open>str\<close>: the value is the exact string of one of the
  members. A member is named after its value.
\<close>

datatype StartSensitivity =
  START_SENSITIVITY_UNSPECIFIED | START_SENSITIVITY_HIGH | START_SENSITIVITY_LOW

definition validate_StartSensitivity :: "'f pyobj \<Rightarrow> exn + StartSensitivity" where
  "validate_StartSensitivity v =
     (case v of
        PyStr s \<Rightarrow>
          if s = ''START_SENSITIVITY_UNSPECIFIED'' then Inr START_SENSITIVITY_UNSPECIFIED
          else if s = ''START_SENSITIVITY_HIGH'' then Inr START_SENSITIVITY_HIGH
          else if s = ''START_SENSITIVITY_LOW'' then Inr START_SENSITIVITY_LOW
          else Inl ValidationError
      | _ \<Rightarrow> Inl ValidationError)"

datatype EndSensitivity =
  END_SENSITIVITY_UNSPECIFIED | END_SENSITIVITY_HIGH | END_SENSITIVITY_LOW

definition validate_EndSensitivity :: "'f pyobj \<Rightarrow> exn + EndSensitivity" where
  "validate_EndSensitivity v =
     (case v of
        PyStr s \<Rightarrow>
          if s = ''END_SENSITIVITY_UNSPECIFIED'' then Inr END_SENSITIVITY_UNSPECIFIED
          else if s = ''END_SENSITIVITY_HIGH'' then Inr END_SENSITIVITY_HIGH
          else if s = ''END_SENSITIVITY_LOW'' then Inr END_SENSITIVITY_LOW
          else Inl ValidationError
      | _ \<Rightarrow> Inl ValidationError)"

record AutomaticActivityDetection =
  disabled :: "bool option"
  start_of_speech_sensitivity :: "StartSensitivity option"
  prefix_padding_ms :: "int option"
  end_of_speech_sensitivity :: "EndSensitivity option"
  silence_duration_ms :: "int option"

definition validate_AutomaticActivityDetection ::
  "'f library \<Rightarrow> 'f pyobj \<Rightarrow> exn + AutomaticActivityDetection" where
  "validate_AutomaticActivityDetection L = validate_model (\<lambda>kvs.
     exn_bind (field_with_default ''disabled'' None (nullable (validate_bool L)) kvs) (\<lambda>d.
     exn_bind (field_with_default ''start_of_speech_sensitivity'' None
                 (nullable validate_StartSensitivity) kvs) (\<lambda>s.
     exn_bind (field_with_default ''prefix_padding_ms'' None (nullable (validate_int L)) kvs) (\<lambda>p.
     exn_bind (field_with_default ''end_of_speech_sensitivity'' None
                 (nullable validate_EndSensitivity) kvs) (\<lambda>e.
     exn_bind (field_with_default ''silence_duration_ms'' None (nullable (validate_int L)) kvs) (\<lambda>m.
     Inr \<lparr>disabled = d, start_of_speech_sensitivity = s, prefix_padding_ms = p,
          end_of_speech_sensitivity = e, silence_duration_ms = m\<rparr>))))))"

record RealtimeInput =
  mediaChunks :: "MediaChunk list"

record AudioInputMessage =
  realtimeInput :: RealtimeInput

record ContextWindowCompressionConfig =
  sliding_window :: "bool option"
  trigger_tokens :: "int option"

definition validate_ContextWindowCompressionConfig ::
  "'f library \<Rightarrow> 'f pyobj \<Rightarrow> exn + ContextWindowCompressionConfig" where
  "validate_ContextWindowCompressionConfig L = validate_model (\<lambda>kvs.
     exn_bind (field_with_default ''sliding_window'' (Some True) (nullable (validate_bool L)) kvs) (\<lambda>w.
     exn_bind (field_with_default ''trigger_tokens'' None (nullable (validate_int L)) kvs) (\<lambda>t.
     Inr \<lparr>sliding_window = w, trigger_tokens = t\<rparr>)))"

section \<open>Grounding metadata\<close>

record SearchEntryPoint =
  renderedContent :: "string option"

definition validate_SearchEntryPoint :: "'f pyobj \<Rightarrow> exn + SearchEntryPoint" where
  "validate_SearchEntryPoint = validate_model (\<lambda>kvs.
     exn_bind (field_with_default ''renderedContent'' None (nullable validate_str) kvs) (\<lambda>r.
     Inr \<lparr>renderedContent = r\<rparr>))"

record WebSource =
  uri :: "string option"
  title :: "string option"

definition validate_WebSource :: "'f pyobj \<Rightarrow> exn + WebSource" where
  "validate_WebSource = validate_model (\<lambda>kvs.
     exn_bind (field_with_default ''uri'' None (nullable validate_str) kvs) (\<lambda>u.
     exn_bind (field_with_default ''title'' None (nullable validate_str) kvs) (\<lambda>t.
     Inr \<lparr>uri = u, title = t\<rparr>)))"

record GroundingChunk =
  web :: "WebSource option"

definition validate_GroundingChunk :: "'f pyobj \<Rightarrow> exn + GroundingChunk" where
  "validate_GroundingChunk = validate_model (\<lambda>kvs.
     exn_bind (field_with_default ''web'' None (nullable validate_WebSource) kvs) (\<lambda>w.
     Inr \<lparr>web = w\<rparr>))"

record GroundingSegment =
  startIndex :: "int option"
  endIndex :: "int option"
  text' :: "string option"

definition validate_GroundingSegment :: "'f library \<Rightarrow> 'f pyobj \<Rightarrow> exn + GroundingSegment" where
  "validate_GroundingSegment L = validate_model (\<lambda>kvs.
     exn_bind (field_with_default ''startIndex'' None (nullable (validate_int L)) kvs) (\<lambda>s.
     exn_bind (field_with_default ''endIndex'' None (nullable (validate_int L)) kvs) (\<lambda>e.
     exn_bind (field_with_default ''text'' None (nullable validate_str) kvs) (\<lambda>t.
     Inr \<lparr>startIndex = s, endIndex = e, GroundingSegment.text' = t\<rparr>))))"

record 'f GroundingSupport =
  segment :: "GroundingSegment option"
  groundingChunkIndices :: "int list option"
  confidenceScores :: "'f list option"

definition validate_GroundingSupport ::
  "'f library \<Rightarrow> 'f pyobj \<Rightarrow> exn + 'f GroundingSupport" where
  "validate_GroundingSupport L = validate_model (\<lambda>kvs.
     exn_bind (field_with_default ''segment'' None (nullable (validate_GroundingSegment L)) kvs) (\<lambda>s.
     exn_bind (field_with_default ''groundingChunkIndices'' None
                 (nullable (validate_list (validate_int L))) kvs) (\<lambda>i.
     exn_bind (field_with_default ''confidenceScores'' None
                 (nullable (validate_list (validate_float L))) kvs) (\<lambda>c.
     Inr \<lparr>segment = s, groundingChunkIndices = i, confidenceScores = c\<rparr>))))"

record 'f GroundingMetadata =
  searchEntryPoint :: "SearchEntryPoint option"
  groundingChunks :: "GroundingChunk list option"
  groundingSupports :: "'f GroundingSupport list option"
  webSearchQueries :: "string list option"

definition validate_GroundingMetadata ::
  "'f library \<Rightarrow> 'f pyobj \<Rightarrow> exn + 'f GroundingMetadata" where
  "validate_GroundingMetadata L = validate_model (\<lambda>kvs.
     exn_bind (field_with_default ''searchEntryPoint'' None
                 (nullable validate_SearchEntryPoint) kvs) (\<lambda>s.
     exn_bind (field_with_default ''groundingChunks'' None
                 (nullable (validate_list validate_GroundingChunk)) kvs) (\<lambda>c.
     exn_bind (field_with_default ''groundingSupports'' None
                 (nullable (validate_list (validate_GroundingSupport L))) kvs) (\<lambda>g.
     exn_bind (field_with_default ''webSearchQueries'' None
                 (nullable (validate_list validate_str)) kvs) (\<lambda>q.
     Inr \<lparr>searchEntryPoint = s, groundingChunks = c, groundingSupports = g,
          webSearchQueries = q\<rparr>)))))"

section \<open>Server events\<close>

text \<open>\<^verbatim>\<open>SetupComplete\<close> declares no field: any \<^verbatim>\<open>dict\<close> validates, to the one instance.\<close>

datatype SetupComplete = SetupComplete

definition validate_SetupComplete :: "'f pyobj \<Rightarrow> exn + SetupComplete" where
  "validate_SetupComplete = validate_model (\<lambda>kvs. Inr SetupComplete)"

record InlineData =
  mimeType :: string
  data :: string

definition validate_InlineData :: "'f pyobj \<Rightarrow> exn + InlineData" where
  "validate_InlineData = validate_model (\<lambda>kvs.
     exn_bind (required_field ''mimeType'' validate_str kvs) (\<lambda>m.
     exn_bind (required_field ''data'' validate_str kvs) (\<lambda>d.
     Inr \<lparr>InlineData.mimeType = m, InlineData.data = d\<rparr>)))"

record Part =
  inlineData :: "InlineData option"
  text' :: "string option"

definition validate_Part :: "'f pyobj \<Rightarrow> exn + Part" where
  "validate_Part = validate_model (\<lambda>kvs.
     exn_bind (field_with_default ''inlineData'' None (nullable validate_InlineData) kvs) (\<lambda>i.
     exn_bind (field_with_default ''text'' None (nullable validate_str) kvs) (\<lambda>t.
     Inr \<lparr>Part.inlineData = i, Part.text' = t\<rparr>)))"

record ModelTurn =
  parts :: "Part list"

definition validate_ModelTurn :: "'f pyobj \<Rightarrow> exn + ModelTurn" where
  "validate_ModelTurn = validate_model (\<lambda>kvs.
     exn_bind (required_field ''parts'' (validate_list validate_Part) kvs) (\<lambda>ps.
     Inr \<lparr>ModelTurn.parts = ps\<rparr>))"

record BidiGenerateContentTranscription =
  text' :: string

definition validate_BidiGenerateContentTranscription ::
  "'f pyobj \<Rightarrow> exn + BidiGenerateContentTranscription" where
  "validate_BidiGenerateContentTranscription = validate_model (\<lambda>kvs.
     exn_bind (required_field ''text'' validate_str kvs) (\<lambda>t.
     Inr \<lparr>BidiGenerateContentTranscription.text' = t\<rparr>))"

record 'f ServerContent =
  modelTurn :: "ModelTurn option"
  interrupted :: "bool option"
  turnComplete :: "bool option"
  inputTranscription :: "BidiGenerateContentTranscription option"
  outputTranscription :: "BidiGenerateContentTranscription option"
  groundingMetadata :: "'f GroundingMetadata option"

definition validate_ServerContent :: "'f library \<Rightarrow> 'f pyobj \<Rightarrow> exn + 'f ServerContent" where
  "validate_ServerContent L = validate_model (\<lambda>kvs.
     exn_bind (field_with_default ''modelTurn'' None (nullable validate_ModelTurn) kvs) (\<lambda>m.
     exn_bind (field_with_default ''interrupted'' None (nullable (validate_bool L)) kvs) (\<lambda>i.
     exn_bind (field_with_default ''turnComplete'' None (nullable (validate_bool L)) kvs) (\<lambda>t.
     exn_bind (field_with_default ''inputTranscription'' None
                 (nullable validate_BidiGenerateContentTranscription) kvs) (\<lambda>it.
     exn_bind (field_with_default ''outputTranscription'' None
                 (nullable validate_BidiGenerateContentTranscription) kvs) (\<lambda>ot.
     exn_bind (field_with_default ''groundingMetadata'' None
                 (nullable (validate_GroundingMetadata L)) kvs) (\<lambda>g.
     Inr \<lparr>modelTurn = m, interrupted = i, turnComplete = t, inputTranscription = it,
          outputTranscription = ot, groundingMetadata = g\<rparr>)))))))"

record 'f FunctionCall =
  id' :: string
  name :: string
  args :: "(string \<times> 'f pyobj) list"

definition validate_FunctionCall :: "'f pyobj \<Rightarrow> exn + 'f FunctionCall" where
  "validate_FunctionCall = validate_model (\<lambda>kvs.
     exn_bind (required_field ''id'' validate_str kvs) (\<lambda>i.
     exn_bind (required_field ''name'' validate_str kvs) (\<lambda>n.
     exn_bind (required_field ''args'' validate_dict kvs) (\<lambda>a.
     Inr \<lparr>id' = i, name = n, args = a\<rparr>))))"

record 'f ToolCall =
  functionCalls :: "'f FunctionCall list"

definition validate_ToolCall :: "'f pyobj \<Rightarrow> exn + 'f ToolCall" where
  "validate_ToolCall = validate_model (\<lambda>kvs.
     exn_bind (required_field ''functionCalls'' (validate_list validate_FunctionCall) kvs) (\<lambda>fs.
     Inr \<lparr>functionCalls = fs\<rparr>))"

datatype Modality = MODALITY_UNSPECIFIED | TEXT | IMAGE | AUDIO | VIDEO

definition validate_Modality :: "'f pyobj \<Rightarrow> exn + Modality" where
  "validate_Modality v =
     (case v of
        PyStr s \<Rightarrow>
          if s = ''MODALITY_UNSPECIFIED'' then Inr MODALITY_UNSPECIFIED
          else if s = ''TEXT'' then Inr TEXT
          else if s = ''IMAGE'' then Inr IMAGE
          else if s = ''AUDIO'' then Inr AUDIO
          else if s = ''VIDEO'' then Inr VIDEO
          else Inl ValidationError
      | _ \<Rightarrow> Inl ValidationError)"

record ModalityTokenCount =
  modality :: Modality
  tokenCount :: int

definition validate_ModalityTokenCount ::
  "'f library \<Rightarrow> 'f pyobj \<Rightarrow> exn + ModalityTokenCount" where
  "validate_ModalityTokenCount L = validate_model (\<lambda>kvs.
     exn_bind (required_field ''modality'' validate_Modality kvs) (\<lambda>m.
     exn_bind (required_field ''tokenCount'' (validate_int L) kvs) (\<lambda>c.
     Inr \<lparr>modality = m, tokenCount = c\<rparr>)))"

record UsageMetadata =
  promptTokenCount :: "int option"
  cachedContentTokenCount :: "int option"
  responseTokenCount :: "int option"
  toolUsePromptTokenCount :: "int option"
  thoughtsTokenCount :: "int option"
  totalTokenCount :: "int option"
  promptTokensDetails :: "ModalityTokenCount list option"
  cacheTokensDetails :: "ModalityTokenCount list option"
  responseTokensDetails :: "ModalityTokenCount list option"
  toolUsePromptTokensDetails :: "ModalityTokenCount list option"

definition validate_UsageMetadata :: "'f library \<Rightarrow> 'f pyobj \<Rightarrow> exn + UsageMetadata" where
  "validate_UsageMetadata L = validate_model (\<lambda>kvs.
     exn_bind (field_with_default ''promptTokenCount'' None (nullable (validate_int L)) kvs) (\<lambda>a.
     exn_bind (field_with_default ''cachedContentTokenCount'' None (nullable (validate_int L)) kvs) (\<lambda>b.
     exn_bind (field_with_default ''responseTokenCount'' None (nullable (validate_int L)) kvs) (\<lambda>c.
     exn_bind (field_with_default ''toolUsePromptTokenCount'' None (nullable (validate_int L)) kvs) (\<lambda>d.
     exn_bind (field_with_default ''thoughtsTokenCount'' None (nullable (validate_int L)) kvs) (\<lambda>e.
     exn_bind (field_with_default ''totalTokenCount'' None (nullable (validate_int L)) kvs) (\<lambda>f.
     exn_bind (field_with_default ''promptTokensDetails'' None
                 (nullable (validate_list (validate_ModalityTokenCount L))) kvs) (\<lambda>g.
     exn_bind (field_with_default ''cacheTokensDetails'' None
                 (nullable (validate_list (validate_ModalityTokenCount L))) kvs) (\<lambda>h.
     exn_bind (field_with_default ''responseTokensDetails'' None
                 (nullable (validate_list (validate_ModalityTokenCount L))) kvs) (\<lambda>i.
     exn_bind (field_with_default ''toolUsePromptTokensDetails'' None
                 (nullable (validate_list (validate_ModalityTokenCount L))) kvs) (\<lambda>j.
     Inr \<lparr>promptTokenCount = a, cachedContentTokenCount = b, responseTokenCount = c,
          toolUsePromptTokenCount = d, thoughtsTokenCount = e, totalTokenCount = f,
          promptTokensDetails = g, cacheTokensDetails = h, responseTokensDetails = i,
          toolUsePromptTokensDetails = j\<rparr>)))))))))))"

record 'f ServerEvent =
  setupComplete :: "SetupComplete option"
  serverContent :: "'f ServerContent option"
  toolCall :: "'f ToolCall option"
  usageMetadata :: "UsageMetadata option"

definition validate_ServerEvent :: "'f library \<Rightarrow> 'f pyobj \<Rightarrow> exn + 'f ServerEvent" where
  "validate_ServerEvent L = validate_model (\<lambda>kvs.
     exn_bind (field_with_default ''setupComplete'' None (nullable validate_SetupComplete) kvs) (\<lambda>s.
     exn_bind (field_with_default ''serverContent'' None (nullable (validate_ServerContent L)) kvs) (\<lambda>c.
     exn_bind (field_with_default ''toolCall'' None (nullable validate_ToolCall) kvs) (\<lambda>t.
     exn_bind (field_with_default ''usageMetadata'' None (nullable (validate_UsageMetadata L)) kvs) (\<lambda>u.
     Inr \<lparr>setupComplete = s, serverContent = c, toolCall = t, usageMetadata = u\<rparr>)))))"

section \<open>The decode path\<close>

text \<open>
  The logger is the only state \<^verbatim>\<open>parse_server_event\<close> touches: it appends records and
  reads nothing back. A record is one of the two formatted messages of the handler, with
  the value that the message interpolates.
\<close>

datatype log_record =
    Error_parsing_server_event exn
  | Raw_message_truncated string

text \<open>The body of the \<^verbatim>\<open>try\<close> block: every statement that can raise is a bind.\<close>

definition try_block :: "'f library \<Rightarrow> string \<Rightarrow> exn + 'f ServerEvent" where
  "try_block L message_str =
     exn_bind (json_loads L message_str) (\<lambda>evt_dict.
     exn_bind (py_contains ''serverContent'' evt_dict) (\<lambda>has_content.
     exn_bind (if has_content
               then exn_bind (py_getitem evt_dict ''serverContent'') (\<lambda>server_content.
                    exn_bind (py_contains ''groundingMetadata'' server_content) (\<lambda>has_grounding.
                    Inr ()))
               else Inr ()) (\<lambda>_.
     validate_ServerEvent L evt_dict)))"

definition parse_server_event ::
  "'f library \<Rightarrow> string \<Rightarrow> log_record list \<Rightarrow> 'f ServerEvent option \<times> log_record list" where
  "parse_server_event L message_str logger =
     (case try_block L message_str of
        Inr evt \<Rightarrow> (Some evt, logger)
      | Inl e \<Rightarrow>
          (let truncated_message =
                 (if length message_str > 200 then take 200 message_str @ ''...''
                  else message_str)
           in (None, logger @ [Error_parsing_server_event e,
                               Raw_message_truncated truncated_message])))"


section \<open>The modelled part of a wire object\<close>

text \<open>
  What is left of a wire object when every field that the schema does not declare is
  dropped, at every depth. \<open>keep_fields fs\<close> keeps, of a \<^verbatim>\<open>dict\<close>, the keys listed in \<open>fs\<close>,
  each with the modelled part of its value; \<open>keep_items\<close> does the same for the items of a
  list. An object of another type than the one expected is left as it is.
\<close>

definition keep_pairs ::
  "(string \<times> ('f pyobj \<Rightarrow> 'f pyobj)) list \<Rightarrow> (string \<times> 'f pyobj) list
     \<Rightarrow> (string \<times> 'f pyobj) list" where
  "keep_pairs fs kvs =
     List.map_filter (\<lambda>(k, f). map_option (\<lambda>v. (k, f v)) (map_of kvs k)) fs"

definition keep_fields ::
  "(string \<times> ('f pyobj \<Rightarrow> 'f pyobj)) list \<Rightarrow> 'f pyobj \<Rightarrow> 'f pyobj" where
  "keep_fields fs v = (case v of PyDict kvs \<Rightarrow> PyDict (keep_pairs fs kvs) | _ \<Rightarrow> v)"

definition keep_items :: "('f pyobj \<Rightarrow> 'f pyobj) \<Rightarrow> 'f pyobj \<Rightarrow> 'f pyobj" where
  "keep_items f v = (case v of PyList xs \<Rightarrow> PyList (map f xs) | _ \<Rightarrow> v)"

text \<open>
  One function for each class that a \<^verbatim>\<open>ServerEvent\<close> reaches, with the fields the class
  declares. A field of a scalar type, of a list of scalars, or of type \<^verbatim>\<open>dict\<close> (the
  \<^verbatim>\<open>args\<close> of a \<^verbatim>\<open>FunctionCall\<close>) has no unmodelled part: its value is kept whole.
\<close>

definition modelled_SearchEntryPoint :: "'f pyobj \<Rightarrow> 'f pyobj" where
  "modelled_SearchEntryPoint =
     keep_fields
       [(''renderedContent'', id)]"

definition modelled_WebSource :: "'f pyobj \<Rightarrow> 'f pyobj" where
  "modelled_WebSource =
     keep_fields
       [(''uri'', id),
        (''title'', id)]"

definition modelled_GroundingChunk :: "'f pyobj \<Rightarrow> 'f pyobj" where
  "modelled_GroundingChunk =
     keep_fields
       [(''web'', modelled_WebSource)]"

definition modelled_GroundingSegment :: "'f pyobj \<Rightarrow> 'f pyobj" where
  "modelled_GroundingSegment =
     keep_fields
       [(''startIndex'', id),
        (''endIndex'', id),
        (''text'', id)]"

definition modelled_GroundingSupport :: "'f pyobj \<Rightarrow> 'f pyobj" where
  "modelled_GroundingSupport =
     keep_fields
       [(''segment'', modelled_GroundingSegment),
        (''groundingChunkIndices'', id),
        (''confidenceScores'', id)]"

definition modelled_GroundingMetadata :: "'f pyobj \<Rightarrow> 'f pyobj" where
  "modelled_GroundingMetadata =
     keep_fields
       [(''searchEntryPoint'', modelled_SearchEntryPoint),
        (''groundingChunks'', keep_items modelled_GroundingChunk),
        (''groundingSupports'', keep_items modelled_GroundingSupport),
        (''webSearchQueries'', id)]"

definition modelled_SetupComplete :: "'f pyobj \<Rightarrow> 'f pyobj" where
  "modelled_SetupComplete =
     keep_fields []"

definition modelled_InlineData :: "'f pyobj \<Rightarrow> 'f pyobj" where
  "modelled_InlineData =
     keep_fields
       [(''mimeType'', id),
        (''data'', id)]"

definition modelled_Part :: "'f pyobj \<Rightarrow> 'f pyobj" where
  "modelled_Part =
     keep_fields
       [(''inlineData'', modelled_InlineData),
        (''text'', id)]"

definition modelled_ModelTurn :: "'f pyobj \<Rightarrow> 'f pyobj" where
  "modelled_ModelTurn =
     keep_fields
       [(''parts'', keep_items modelled_Part)]"

definition modelled_BidiGenerateContentTranscription :: "'f pyobj \<Rightarrow> 'f pyobj" where
  "modelled_BidiGenerateContentTranscription =
     keep_fields
       [(''text'', id)]"

definition modelled_ServerContent :: "'f pyobj \<Rightarrow> 'f pyobj" where
  "modelled_ServerContent =
     keep_fields
       [(''modelTurn'', modelled_ModelTurn),
        (''interrupted'', id),
        (''turnComplete'', id),
        (''inputTranscription'', modelled_BidiGenerateContentTranscription),
        (''outputTranscription'', modelled_BidiGenerateContentTranscription),
        (''groundingMetadata'', modelled_GroundingMetadata)]"

definition modelled_FunctionCall :: "'f pyobj \<Rightarrow> 'f pyobj" where
  "modelled_FunctionCall =
     keep_fields
       [(''id'', id),
        (''name'', id),
        (''args'', id)]"

definition modelled_ToolCall :: "'f pyobj \<Rightarrow> 'f pyobj" where
  "modelled_ToolCall =
     keep_fields
       [(''functionCalls'', keep_items modelled_FunctionCall)]"

definition modelled_ModalityTokenCount :: "'f pyobj \<Rightarrow> 'f pyobj" where
  "modelled_ModalityTokenCount =
     keep_fields
       [(''modality'', id),
        (''tokenCount'', id)]"

definition modelled_UsageMetadata :: "'f pyobj \<Rightarrow> 'f pyobj" where
  "modelled_UsageMetadata =
     keep_fields
       [(''promptTokenCount'', id),
        (''cachedContentTokenCount'', id),
        (''responseTokenCount'', id),
        (''toolUsePromptTokenCount'', id),
        (''thoughtsTokenCount'', id),
        (''totalTokenCount'', id),
        (''promptTokensDetails'', keep_items modelled_ModalityTokenCount),
        (''cacheTokensDetails'', keep_items modelled_ModalityTokenCount),
        (''responseTokensDetails'', keep_items modelled_ModalityTokenCount),
        (''toolUsePromptTokensDetails'', keep_items modelled_ModalityTokenCount)]"

definition modelled_ServerEvent :: "'f pyobj \<Rightarrow> 'f pyobj" where
  "modelled_ServerEvent =
     keep_fields
       [(''setupComplete'', modelled_SetupComplete),
        (''serverContent'', modelled_ServerContent),
        (''toolCall'', modelled_ToolCall),
        (''usageMetadata'', modelled_UsageMetadata)]"

section \<open>Client message constructors\<close>

text \<open>
  \<^verbatim>\<open>base64.b64encode\<close> and \<^verbatim>\<open>base64.b64decode\<close> on the standard alphabet, with \<^verbatim>\<open>=\<close>
  padding. Three bytes make four sextets; a last group of one or two bytes is filled with
  zero bits and padded. A byte is an \<open>8 word\<close>. The decoder reads groups of four
  characters and fails (\<open>None\<close>, Python's \<^verbatim>\<open>binascii.Error\<close>) on anything else.
\<close>

definition b64_alphabet :: string where
  "b64_alphabet = ''ABCDEFGHIJKLMNOPQRSTUVWXYZabcdefghijklmnopqrstuvwxyz0123456789+/''"

definition b64char :: "nat \<Rightarrow> char" where
  "b64char n = b64_alphabet ! n"

definition b64index :: "char \<Rightarrow> nat option" where
  "b64index c = map_of (zip b64_alphabet [0..<64]) c"

definition sextet0 :: "8 word \<Rightarrow> nat" where
  "sextet0 a = unat a div 4"

definition sextet1 :: "8 word \<Rightarrow> 8 word \<Rightarrow> nat" where
  "sextet1 a b = unat a mod 4 * 16 + unat b div 16"

definition sextet2 :: "8 word \<Rightarrow> 8 word \<Rightarrow> nat" where
  "sextet2 b c = unat b mod 16 * 4 + unat c div 64"

definition sextet3 :: "8 word \<Rightarrow> nat" where
  "sextet3 c = unat c mod 64"

fun b64encode :: "8 word list \<Rightarrow> string" where
  "b64encode [] = []"
| "b64encode [a] =
     [b64char (sextet0 a), b64char (sextet1 a 0), CHR ''='', CHR ''='']"
| "b64encode [a, b] =
     [b64char (sextet0 a), b64char (sextet1 a b), b64char (sextet2 b 0), CHR ''='']"
| "b64encode (a # b # c # rest) =
     [b64char (sextet0 a), b64char (sextet1 a b), b64char (sextet2 b c), b64char (sextet3 c)]
     @ b64encode rest"

definition octet0 :: "nat \<Rightarrow> nat \<Rightarrow> 8 word" where
  "octet0 i0 i1 = of_nat (i0 * 4 + i1 div 16)"

definition octet1 :: "nat \<Rightarrow> nat \<Rightarrow> 8 word" where
  "octet1 i1 i2 = of_nat (i1 mod 16 * 16 + i2 div 4)"

definition octet2 :: "nat \<Rightarrow> nat \<Rightarrow> 8 word" where
  "octet2 i2 i3 = of_nat (i2 mod 4 * 64 + i3)"

fun b64decode :: "string \<Rightarrow> 8 word list option" where
  "b64decode [] = Some []"
| "b64decode (c0 # c1 # c2 # c3 # rest) =
     (case (b64index c0, b64index c1) of
        (Some i0, Some i1) \<Rightarrow>
          if c2 = CHR ''='' \<and> c3 = CHR ''='' \<and> rest = [] then Some [octet0 i0 i1]
          else (case b64index c2 of
            Some i2 \<Rightarrow>
              if c3 = CHR ''='' \<and> rest = [] then Some [octet0 i0 i1, octet1 i1 i2]
              else (case b64index c3 of
                Some i3 \<Rightarrow>
                  map_option (\<lambda>bs. octet0 i0 i1 # octet1 i1 i2 # octet2 i2 i3 # bs)
                    (b64decode rest)
              | None \<Rightarrow> None)
          | None \<Rightarrow> None)
      | _ \<Rightarrow> None)"
| "b64decode _ = None"

text \<open>
  What an f-string interpolates for an \<^verbatim>\<open>int\<close>. \<open>decimal\<close> is the rendering: the decimal
  digits, after a minus sign when the number is negative. The conversion \<^verbatim>\<open>str(int)\<close>
  raises \<^verbatim>\<open>ValueError\<close> when the number has more digits than \<^verbatim>\<open>sys.int_max_str_digits\<close>,
  which is 4300 unless the interpreter is configured otherwise. \<open>decimal_value\<close> reads a
  rendering back.
\<close>

function digits :: "nat \<Rightarrow> string" where
  "digits n = (if n < 10 then [''0123456789'' ! n]
               else digits (n div 10) @ [''0123456789'' ! (n mod 10)])"
  by pat_completeness auto
termination
  by (relation "measure (\<lambda>n. n)") auto

declare digits.simps [simp del]

definition decimal :: "int \<Rightarrow> string" where
  "decimal i = (if i < 0 then CHR ''-'' # digits (nat (- i)) else digits (nat i))"

definition int_max_str_digits :: nat where
  "int_max_str_digits = 4300"

definition str_int :: "int \<Rightarrow> exn + string" where
  "str_int i =
     (if int_max_str_digits < length (digits (nat \<bar>i\<bar>)) then Inl ValueError
      else Inr (decimal i))"

definition digit_value :: "char \<Rightarrow> nat" where
  "digit_value c = (case map_of (zip ''0123456789'' [0..<10]) c of Some d \<Rightarrow> d | None \<Rightarrow> 0)"

definition decimal_value :: "string \<Rightarrow> int" where
  "decimal_value s =
     (case s of
        [] \<Rightarrow> 0
      | c # cs \<Rightarrow>
          if c = CHR ''-'' then - int (foldl (\<lambda>acc d. 10 * acc + digit_value d) 0 cs)
          else int (foldl (\<lambda>acc d. 10 * acc + digit_value d) 0 s))"

definition from_raw_audio :: "8 word list \<Rightarrow> int \<Rightarrow> exn + AudioInputMessage" where
  "from_raw_audio raw_audio sample_rate =
     (let data = b64encode raw_audio
      in exn_bind (str_int sample_rate) (\<lambda>rate.
         Inr \<lparr>realtimeInput =
               \<lparr>mediaChunks =
                  [\<lparr>MediaChunk.mimeType = ''audio/pcm;rate='' @ rate,
                    MediaChunk.data = data\<rparr>]\<rparr>\<rparr>))"

section \<open>Example messages\<close>

text \<open>
  A library for the examples: its \<open>json_loads\<close> knows the objects of five messages and
  takes every other text as malformed, and it has no lax conversion.
\<close>

definition msg_setup :: string where
  \<open>msg_setup = ''{"setupComplete": {}}''\<close>

definition msg_null_content :: string where
  \<open>msg_null_content = ''{"serverContent": null}''\<close>

definition msg_turn_complete :: string where
  \<open>msg_turn_complete = ''{"serverContent": {"turnComplete": true}}''\<close>

definition msg_unknown_field :: string where
  \<open>msg_unknown_field = ''{"setupComplete": {}, "sessionId": 7}''\<close>

definition msg_array :: string where
  \<open>msg_array = ''[1]''\<close>

definition example_loads :: "string \<Rightarrow> exn + unit pyobj" where
  "example_loads s =
     (if s = msg_setup then Inr (PyDict [(''setupComplete'', PyDict [])])
      else if s = msg_null_content then Inr (PyDict [(''serverContent'', PyNone)])
      else if s = msg_turn_complete then
        Inr (PyDict [(''serverContent'', PyDict [(''turnComplete'', PyBool True)])])
      else if s = msg_unknown_field then
        Inr (PyDict [(''setupComplete'', PyDict []), (''sessionId'', PyInt 7)])
      else if s = msg_array then Inr (PyList [PyInt 1])
      else Inl JSONDecodeError)"

definition example_library :: "unit library" where
  "example_library =
     \<lparr>json_loads = example_loads, lax_int = (\<lambda>v. None), lax_bool = (\<lambda>v. None),
      lax_float = (\<lambda>v. None)\<rparr>"

text \<open>A text of 250 characters that is not JSON.\<close>

definition long_message :: string where
  "long_message = replicate 250 CHR ''x''"

text \<open>How many of the three fields of a \<^verbatim>\<open>ContentPart\<close> are present.\<close>

definition present_fields :: "ContentPart \<Rightarrow> nat" where
  "present_fields p =
     (if ContentPart.text' p = None then 0 else 1)
     + (if ContentPart.inlineData p = None then 0 else 1)
     + (if ContentPart.fileData p = None then 0 else 1)"

text \<open>An object whose validation gives back a given \<^verbatim>\<open>ContentPart\<close>.\<close>

definition content_part_dict :: "ContentPart \<Rightarrow> (string \<times> 'f pyobj) list" where
  "content_part_dict p =
     (case ContentPart.text' p of None \<Rightarrow> [] | Some t \<Rightarrow> [(''text'', PyStr t)])
     @ (case ContentPart.inlineData p of
          None \<Rightarrow> []
        | Some m \<Rightarrow> [(''inlineData'', PyDict [(''mimeType'', PyStr (MediaChunk.mimeType m)),
                                              (''data'', PyStr (MediaChunk.data m))])])
     @ (case ContentPart.fileData p of
          None \<Rightarrow> []
        | Some f \<Rightarrow> [(''fileData'', PyDict [(''mimeType'', PyStr (FileData.mimeType f)),
                                           (''fileUri'', PyStr (FileData.fileUri f))])])"


section \<open>Properties of the constructors\<close>

lemma b64index_char: "n < 64 \<Longrightarrow> b64index (b64char n) = Some n"
proof -
  have "\<forall>n \<in> set [0..<64]. b64index (b64char n) = Some n"
    by code_simp
  then show "n < 64 \<Longrightarrow> b64index (b64char n) = Some n" by simp
qed

lemma b64char_not_pad: "n < 64 \<Longrightarrow> b64char n \<noteq> CHR ''=''"
proof -
  have "\<forall>n \<in> set [0..<64]. b64char n \<noteq> CHR ''=''"
    by code_simp
  then show "n < 64 \<Longrightarrow> b64char n \<noteq> CHR ''=''" by simp
qed

lemma byte_less: "unat (a :: 8 word) < 256"
  using unsigned_less [of a] by simp

lemma sextet0_less: "sextet0 a < 64"
  using byte_less [of a] by (simp add: sextet0_def)

lemma sextet1_less: "sextet1 a b < 64"
proof -
  have "unat b div 16 < 16" using byte_less [of b] by simp
  moreover have "unat a mod 4 < 4" by simp
  ultimately show ?thesis unfolding sextet1_def by linarith
qed

lemma sextet2_less: "sextet2 b c < 64"
proof -
  have "unat c div 64 < 4" using byte_less [of c] by simp
  moreover have "unat b mod 16 < 16" by simp
  ultimately show ?thesis unfolding sextet2_def by linarith
qed

lemma sextet3_less: "sextet3 c < 64"
  by (simp add: sextet3_def)

lemma octet0_sextets: "octet0 (sextet0 a) (sextet1 a b) = a"
proof -
  have "unat b div 16 < 16" using byte_less [of b] by simp
  then have "(unat a mod 4 * 16 + unat b div 16) div 16 = unat a mod 4" by simp
  then have "unat a div 4 * 4 + (unat a mod 4 * 16 + unat b div 16) div 16 = unat a"
    by simp
  then show ?thesis unfolding octet0_def sextet0_def sextet1_def by simp
qed

lemma octet1_sextets: "octet1 (sextet1 a b) (sextet2 b c) = b"
proof -
  have x: "unat b div 16 < 16" and y: "unat c div 64 < 4"
    using byte_less [of b] byte_less [of c] by simp_all
  have "(unat a mod 4 * 16 + unat b div 16) mod 16 = unat b div 16" using x by simp
  moreover have "(unat b mod 16 * 4 + unat c div 64) div 4 = unat b mod 16" using y by simp
  ultimately have "(unat a mod 4 * 16 + unat b div 16) mod 16 * 16
          + (unat b mod 16 * 4 + unat c div 64) div 4 = unat b"
    by simp
  then show ?thesis unfolding octet1_def sextet1_def sextet2_def by simp
qed

lemma octet2_sextets: "octet2 (sextet2 b c) (sextet3 c) = c"
proof -
  have y: "unat c div 64 < 4" using byte_less [of c] by simp
  have "(unat b mod 16 * 4 + unat c div 64) mod 4 = unat c div 64" using y by simp
  then have "(unat b mod 16 * 4 + unat c div 64) mod 4 * 64 + unat c mod 64 = unat c"
    by simp
  then show ?thesis unfolding octet2_def sextet2_def sextet3_def by simp
qed

lemmas sextet_less = sextet0_less sextet1_less sextet2_less sextet3_less

lemma b64decode_b64encode: "b64decode (b64encode bs) = Some bs"
proof (induction bs rule: b64encode.induct)
  case 1
  show ?case by simp
next
  case (2 a)
  show ?case
    by (simp add: b64index_char sextet_less octet0_sextets)
next
  case (3 a b)
  show ?case
    by (simp add: b64index_char b64char_not_pad sextet_less octet0_sextets octet1_sextets)
next
  case (4 a b c rest)
  then show ?case
    by (simp add: b64index_char b64char_not_pad sextet_less
          octet0_sextets octet1_sextets octet2_sextets)
qed

lemma digit_value_char: "d < 10 \<Longrightarrow> digit_value (''0123456789'' ! d) = d"
proof -
  have "\<forall>d \<in> set [0..<10]. digit_value (''0123456789'' ! d) = d"
    by code_simp
  then show "d < 10 \<Longrightarrow> digit_value (''0123456789'' ! d) = d" by simp
qed

lemma digit_char_not_minus: "d < 10 \<Longrightarrow> ''0123456789'' ! d \<noteq> CHR ''-''"
proof -
  have "\<forall>d \<in> set [0..<10]. ''0123456789'' ! d \<noteq> CHR ''-''"
    by code_simp
  then show "d < 10 \<Longrightarrow> ''0123456789'' ! d \<noteq> CHR ''-''" by simp
qed

lemma digits_value: "foldl (\<lambda>acc d. 10 * acc + digit_value d) 0 (digits n) = n"
proof (induction n rule: digits.induct)
  case (1 n)
  show ?case
  proof (cases "n < 10")
    case True
    then show ?thesis by (subst digits.simps) (simp add: digit_value_char)
  next
    case False
    then show ?thesis using 1 by (subst digits.simps) (simp add: digit_value_char)
  qed
qed

lemma digits_head: "\<exists>c cs. digits n = c # cs \<and> c \<noteq> CHR ''-''"
proof (induction n rule: digits.induct)
  case (1 n)
  show ?case
  proof (cases "n < 10")
    case True
    then show ?thesis by (subst digits.simps) (simp add: digit_char_not_minus)
  next
    case False
    then obtain c cs where "digits (n div 10) = c # cs" "c \<noteq> CHR ''-''" using 1 by blast
    then show ?thesis using False by (subst digits.simps) simp
  qed
qed

lemma decimal_value_decimal: "decimal_value (decimal i) = i"
proof (cases "i < 0")
  case True
  then show ?thesis by (simp add: decimal_def decimal_value_def digits_value)
next
  case False
  obtain c cs where d: "digits (nat i) = c # cs" "c \<noteq> CHR ''-''" using digits_head by blast
  have "foldl (\<lambda>acc d. 10 * acc + digit_value d) 0 (c # cs) = nat i"
    using digits_value [of "nat i"] d(1) by simp
  then show ?thesis using False d by (simp add: decimal_def decimal_value_def)
qed

lemma length_digits: "0 < k \<Longrightarrow> k < length (digits n) \<longleftrightarrow> 10 ^ k \<le> n"
proof (induction n arbitrary: k rule: digits.induct)
  case (1 n)
  show ?case
  proof (cases "n < 10")
    case True
    have "(10::nat) ^ 1 \<le> 10 ^ k" using "1.prems" by (intro power_increasing) simp_all
    then have "\<not> 10 ^ k \<le> n" using True by simp
    moreover have "length (digits n) = 1" using True by (subst digits.simps) simp
    ultimately show ?thesis using "1.prems" by simp
  next
    case False
    have len: "length (digits n) = Suc (length (digits (n div 10)))"
      using False by (subst digits.simps) simp
    show ?thesis
    proof (cases k)
      case 0
      then show ?thesis using "1.prems" by simp
    next
      case (Suc j)
      show ?thesis
      proof (cases "j = 0")
        case True
        obtain c cs where "digits (n div 10) = c # cs" using digits_head by blast
        then show ?thesis using True Suc False len by simp
      next
        case j: False
        then have "j < length (digits (n div 10)) \<longleftrightarrow> 10 ^ j \<le> n div 10"
          using "1.IH" [OF False, of j] by simp
        also have "\<dots> \<longleftrightarrow> 10 ^ j * 10 \<le> n"
          by (rule less_eq_div_iff_mult_less_eq) simp
        finally show ?thesis using Suc len by (simp add: mult.commute)
      qed
    qed
  qed
qed

lemma str_int_limit:
  "str_int i = (if 10 ^ int_max_str_digits \<le> \<bar>i\<bar> then Inl ValueError else Inr (decimal i))"
proof -
  have pos: "0 < int_max_str_digits" by (simp add: int_max_str_digits_def)
  have "int_max_str_digits < length (digits (nat \<bar>i\<bar>))
      \<longleftrightarrow> 10 ^ int_max_str_digits \<le> nat \<bar>i\<bar>"
    by (rule length_digits [OF pos])
  also have "\<dots> \<longleftrightarrow> int (10 ^ int_max_str_digits) \<le> \<bar>i\<bar>"
    by (rule le_nat_iff) simp
  also have "\<dots> \<longleftrightarrow> 10 ^ int_max_str_digits \<le> \<bar>i\<bar>"
    by simp
  finally show ?thesis by (simp add: str_int_def)
qed

text \<open>
  C3. The claim is made for every byte sequence \<open>b\<close> and every integer sample rate \<open>r\<close>. It
  fails for a rate of more than 4300 digits: for \<open>r = 10 ^ 4300\<close> the f-string raises
  \<^verbatim>\<open>ValueError\<close> and \<^verbatim>\<open>from_raw_audio\<close> builds no message.
\<close>

theorem from_raw_audio_every_rate_counterexample:
  "int_max_str_digits = 4300
   \<and> from_raw_audio [] (10 ^ int_max_str_digits) = Inl ValueError"
proof
  show "int_max_str_digits = 4300" by (rule int_max_str_digits_def)
  have "(10::int) ^ int_max_str_digits \<le> \<bar>10 ^ int_max_str_digits\<bar>" by (rule abs_ge_self)
  then have "str_int (10 ^ int_max_str_digits) = Inl ValueError"
    by (simp only: str_int_limit if_True)
  then show "from_raw_audio [] (10 ^ int_max_str_digits) = Inl ValueError"
    unfolding from_raw_audio_def Let_def exn_bind_def by simp
qed

text \<open>
  C3, as amended. For every byte sequence \<open>b\<close> and every integer sample rate \<open>r\<close> of at most
  4300 decimal digits, the message built by \<^verbatim>\<open>AudioInputMessage.from_raw_audio(b, r)\<close>
  holds exactly one media chunk; the chunk's \<open>data\<close> decodes from base64 back to \<open>b\<close>, and
  its \<open>mimeType\<close> is \<^verbatim>\<open>audio/pcm;rate=\<close> followed by the decimal rendering of \<open>r\<close>: what
  follows the 15 characters of the prefix reads back as \<open>r\<close>. For a rate of more digits
  the constructor raises \<^verbatim>\<open>ValueError\<close>.
\<close>

theorem from_raw_audio_round_trip:
  "(\<bar>r\<bar> < 10 ^ int_max_str_digits \<longrightarrow>
      (\<exists>chunk. from_raw_audio b r = Inr \<lparr>realtimeInput = \<lparr>mediaChunks = [chunk]\<rparr>\<rparr>
         \<and> b64decode (MediaChunk.data chunk) = Some b
         \<and> MediaChunk.mimeType chunk = ''audio/pcm;rate='' @ decimal r
         \<and> decimal_value (drop 15 (MediaChunk.mimeType chunk)) = r))
   \<and> (10 ^ int_max_str_digits \<le> \<bar>r\<bar> \<longrightarrow> from_raw_audio b r = Inl ValueError)"
proof (intro conjI impI)
  assume "\<bar>r\<bar> < 10 ^ int_max_str_digits"
  then have "str_int r = Inr (decimal r)" by (simp only: str_int_limit) simp
  then have "from_raw_audio b r = Inr \<lparr>realtimeInput = \<lparr>mediaChunks =
      [\<lparr>MediaChunk.mimeType = ''audio/pcm;rate='' @ decimal r, data = b64encode b\<rparr>]\<rparr>\<rparr>"
    by (simp add: from_raw_audio_def exn_bind_def)
  then show "\<exists>chunk. from_raw_audio b r = Inr \<lparr>realtimeInput = \<lparr>mediaChunks = [chunk]\<rparr>\<rparr>
         \<and> b64decode (MediaChunk.data chunk) = Some b
         \<and> MediaChunk.mimeType chunk = ''audio/pcm;rate='' @ decimal r
         \<and> decimal_value (drop 15 (MediaChunk.mimeType chunk)) = r"
    by (simp add: b64decode_b64encode decimal_value_decimal)
next
  assume "10 ^ int_max_str_digits \<le> \<bar>r\<bar>"
  then have "str_int r = Inl ValueError" by (simp only: str_int_limit if_True)
  then show "from_raw_audio b r = Inl ValueError"
    by (simp add: from_raw_audio_def exn_bind_def)
qed

lemma sample_rate_16000_in_range: "\<bar>16000\<bar> < (10::int) ^ int_max_str_digits"
proof -
  have "(10::int) ^ 5 \<le> 10 ^ int_max_str_digits"
    by (rule power_increasing) (simp_all add: int_max_str_digits_def)
  moreover have "\<bar>16000\<bar> < (10::int) ^ 5" by simp
  ultimately show ?thesis by linarith
qed

lemma decimal_16000: "decimal 16000 = ''16000''"
  by (simp add: decimal_def digits.simps)

lemma b64encode_Man: "b64encode [0x4d, 0x61, 0x6e] = ''TWFu''"
  by (simp add: sextet0_def sextet1_def sextet2_def sextet3_def b64char_def b64_alphabet_def)

theorem from_raw_audio_round_trip_witness:
  "\<bar>16000\<bar> < (10::int) ^ int_max_str_digits
   \<and> from_raw_audio [0x4d, 0x61, 0x6e] 16000
       = Inr \<lparr>realtimeInput = \<lparr>mediaChunks =
               [\<lparr>MediaChunk.mimeType = ''audio/pcm;rate=16000'', data = ''TWFu''\<rparr>]\<rparr>\<rparr>
   \<and> b64decode ''TWFu'' = Some [0x4d, 0x61, 0x6e]
   \<and> decimal_value ''16000'' = 16000
   \<and> (10::int) ^ int_max_str_digits \<le> \<bar>10 ^ int_max_str_digits\<bar>
   \<and> from_raw_audio [0x4d, 0x61, 0x6e] (10 ^ int_max_str_digits) = Inl ValueError"
proof -
  have large: "(10::int) ^ int_max_str_digits \<le> \<bar>10 ^ int_max_str_digits\<bar>"
    by (rule abs_ge_self)
  have raised: "from_raw_audio [0x4d, 0x61, 0x6e] (10 ^ int_max_str_digits) = Inl ValueError"
    using from_raw_audio_round_trip [of "10 ^ int_max_str_digits" "[0x4d, 0x61, 0x6e]"] large
    by blast
  have range: "\<not> 10 ^ int_max_str_digits \<le> \<bar>16000 :: int\<bar>"
    using sample_rate_16000_in_range by simp
  have msg: "from_raw_audio [0x4d, 0x61, 0x6e] 16000
       = Inr \<lparr>realtimeInput = \<lparr>mediaChunks =
               [\<lparr>MediaChunk.mimeType = ''audio/pcm;rate=16000'', data = ''TWFu''\<rparr>]\<rparr>\<rparr>"
    using range
    by (simp add: from_raw_audio_def str_int_limit exn_bind_def decimal_16000 b64encode_Man
          del: abs_numeral b64encode.simps)
  obtain chunk where c:
    "from_raw_audio [0x4d, 0x61, 0x6e] 16000 = Inr \<lparr>realtimeInput = \<lparr>mediaChunks = [chunk]\<rparr>\<rparr>"
    "b64decode (MediaChunk.data chunk) = Some [0x4d, 0x61, 0x6e]"
    "decimal_value (drop 15 (MediaChunk.mimeType chunk)) = 16000"
    using from_raw_audio_round_trip [of 16000 "[0x4d, 0x61, 0x6e]"] sample_rate_16000_in_range
    by blast
  from c(1) msg have "chunk = \<lparr>MediaChunk.mimeType = ''audio/pcm;rate=16000'', data = ''TWFu''\<rparr>"
    by simp
  with c(2,3) have "b64decode ''TWFu'' = Some [0x4d, 0x61, 0x6e]"
    and "decimal_value ''16000'' = 16000"
    by simp_all
  with msg sample_rate_16000_in_range large raised show ?thesis by (intro conjI)
qed

section \<open>Properties of the decode path\<close>

lemma try_block_not_dict:
  assumes "json_loads L s = Inr v" and "\<forall>kvs. v \<noteq> PyDict kvs"
  shows "\<exists>e. try_block L s = Inl e"
proof (cases v)
  case (PyDict kvs)
  with assms show ?thesis by simp
next
  case (PyList xs)
  then show ?thesis using assms(1)
    by (simp add: try_block_def exn_bind_def validate_ServerEvent_def validate_model_def)
next
  case (PyStr t)
  then show ?thesis using assms(1)
    by (simp add: try_block_def exn_bind_def validate_ServerEvent_def validate_model_def)
qed (use assms(1) in \<open>simp_all add: try_block_def exn_bind_def\<close>)

lemma parse_server_event_cases:
  "parse_server_event L s logger =
     (case try_block L s of
        Inr evt \<Rightarrow> (Some evt, logger)
      | Inl e \<Rightarrow> (None, logger @ [Error_parsing_server_event e,
           Raw_message_truncated (if length s > 200 then take 200 s @ ''...'' else s)]))"
  by (simp add: parse_server_event_def Let_def split: sum.split)

text \<open>
  C1. For every input string, \<^verbatim>\<open>parse_server_event\<close> returns an event or the no-event
  result \<open>None\<close>: the event when the \<^verbatim>\<open>try\<close> block ends normally, \<open>None\<close> when any of
  its statements raises, since the handler catches the exception and raises none itself.
  In particular the result is \<open>None\<close> when \<^verbatim>\<open>json.loads\<close> rejects the text, and when
  the text is JSON that is not an object.
\<close>

theorem parse_server_event_total:
  "((\<exists>evt. try_block L s = Inr evt \<and> fst (parse_server_event L s logger) = Some evt)
      \<or> ((\<exists>e. try_block L s = Inl e) \<and> fst (parse_server_event L s logger) = None))
   \<and> (\<forall>e. json_loads L s = Inl e \<longrightarrow> fst (parse_server_event L s logger) = None)
   \<and> (\<forall>v. json_loads L s = Inr v \<longrightarrow> (\<forall>kvs. v \<noteq> PyDict kvs)
          \<longrightarrow> fst (parse_server_event L s logger) = None)"
proof (intro conjI allI impI)
  show "(\<exists>evt. try_block L s = Inr evt \<and> fst (parse_server_event L s logger) = Some evt)
      \<or> ((\<exists>e. try_block L s = Inl e) \<and> fst (parse_server_event L s logger) = None)"
    by (cases "try_block L s") (simp_all add: parse_server_event_cases)
next
  fix e assume "json_loads L s = Inl e"
  then have "try_block L s = Inl e" by (simp add: try_block_def exn_bind_def)
  then show "fst (parse_server_event L s logger) = None"
    by (simp add: parse_server_event_cases)
next
  fix v assume "json_loads L s = Inr v" and "\<forall>kvs. v \<noteq> PyDict kvs"
  then obtain e where "try_block L s = Inl e" using try_block_not_dict by blast
  then show "fst (parse_server_event L s logger) = None"
    by (simp add: parse_server_event_cases)
qed

lemma example_loads_not_json: "json_loads example_library ''{not json'' = Inl JSONDecodeError"
  by (simp add: example_library_def example_loads_def msg_setup_def msg_null_content_def
        msg_turn_complete_def msg_unknown_field_def msg_array_def)

lemma example_loads_array: "json_loads example_library msg_array = Inr (PyList [PyInt 1])"
  by (simp add: example_library_def example_loads_def msg_setup_def msg_null_content_def
        msg_turn_complete_def msg_unknown_field_def msg_array_def)

theorem parse_server_event_total_witness:
  "json_loads example_library ''{not json'' = Inl JSONDecodeError
   \<and> fst (parse_server_event example_library ''{not json'' []) = None
   \<and> json_loads example_library msg_array = Inr (PyList [PyInt 1])
   \<and> fst (parse_server_event example_library msg_array []) = None"
  using parse_server_event_total [of example_library "''{not json''" "[]"]
    parse_server_event_total [of example_library msg_array "[]"]
    example_loads_not_json example_loads_array
  by simp

text \<open>
  C4. When \<^verbatim>\<open>parse_server_event\<close> fails, it logs the error and then an excerpt of the raw
  text. For a text of more than 200 characters the excerpt is the first 200 characters
  followed by the three characters \<^verbatim>\<open>...\<close>; for a text of at most 200 characters it is
  the whole text, with nothing appended.
\<close>

theorem raw_message_truncated_to_200:
  assumes "try_block L s = Inl e"
  shows "\<exists>excerpt. snd (parse_server_event L s logger)
            = logger @ [Error_parsing_server_event e, Raw_message_truncated excerpt]
       \<and> (200 < length s \<longrightarrow> take 200 excerpt = take 200 s \<and> drop 200 excerpt = ''...''
             \<and> length excerpt = 203)
       \<and> (length s \<le> 200 \<longrightarrow> excerpt = s)"
  using assms by (simp add: parse_server_event_cases)

lemma try_block_not_json: "try_block example_library ''{not json'' = Inl JSONDecodeError"
  by (simp add: try_block_def exn_bind_def example_loads_not_json)

lemma differ_in_length: "length xs \<noteq> length ys \<Longrightarrow> xs \<noteq> ys"
  by auto

lemma example_loads_long: "json_loads example_library long_message = Inl JSONDecodeError"
proof -
  have len: "length long_message = 250" by (simp add: long_message_def)
  have "long_message \<noteq> msg_setup"
    by (rule differ_in_length) (simp add: len msg_setup_def)
  moreover have "long_message \<noteq> msg_null_content"
    by (rule differ_in_length) (simp add: len msg_null_content_def)
  moreover have "long_message \<noteq> msg_turn_complete"
    by (rule differ_in_length) (simp add: len msg_turn_complete_def)
  moreover have "long_message \<noteq> msg_unknown_field"
    by (rule differ_in_length) (simp add: len msg_unknown_field_def)
  moreover have "long_message \<noteq> msg_array"
    by (rule differ_in_length) (simp add: len msg_array_def)
  ultimately show ?thesis by (simp add: example_library_def example_loads_def)
qed

lemma try_block_long: "try_block example_library long_message = Inl JSONDecodeError"
  by (simp add: try_block_def exn_bind_def example_loads_long)

theorem raw_message_truncated_to_200_witness:
  "try_block example_library long_message = Inl JSONDecodeError
   \<and> snd (parse_server_event example_library long_message [])
       = [Error_parsing_server_event JSONDecodeError,
          Raw_message_truncated (replicate 200 CHR ''x'' @ ''...'')]
   \<and> try_block example_library ''{not json'' = Inl JSONDecodeError
   \<and> snd (parse_server_event example_library ''{not json'' [])
       = [Error_parsing_server_event JSONDecodeError, Raw_message_truncated ''{not json'']"
proof -
  obtain x where x: "snd (parse_server_event example_library long_message [])
            = [] @ [Error_parsing_server_event JSONDecodeError, Raw_message_truncated x]"
      "200 < length long_message \<longrightarrow> take 200 x = take 200 long_message \<and> drop 200 x = ''...''"
    using raw_message_truncated_to_200 [OF try_block_long, of "[]"] by blast
  have "x = take 200 x @ drop 200 x" by simp
  also have "\<dots> = replicate 200 CHR ''x'' @ ''...''"
    using x(2) by (simp add: long_message_def)
  finally have a: "x = replicate 200 CHR ''x'' @ ''...''" .
  obtain y where y: "snd (parse_server_event example_library ''{not json'' [])
            = [] @ [Error_parsing_server_event JSONDecodeError, Raw_message_truncated y]"
      "length ''{not json'' \<le> 200 \<longrightarrow> y = ''{not json''"
    using raw_message_truncated_to_200 [OF try_block_not_json, of "[]"] by blast
  show ?thesis using x(1) a y try_block_long try_block_not_json by simp
qed

text \<open>
  C8. \<^verbatim>\<open>parse_server_event\<close> is deterministic. Its result is a function of the text
  alone: it does not depend on the state of the logger, the only state the function
  touches, so a second invocation on the same text, after the first has logged, returns
  an equal result.
\<close>

theorem parse_server_event_deterministic:
  "fst (parse_server_event L s logger) = fst (parse_server_event L s logger')
   \<and> fst (parse_server_event L s (snd (parse_server_event L s logger)))
       = fst (parse_server_event L s logger)"
  by (cases "try_block L s") (simp_all add: parse_server_event_cases)

section \<open>Properties of the client models\<close>

lemmas field_defs = validate_model_def field_with_default_def required_field_def nullable_def
  exn_bind_def

text \<open>
  C9. A \<^verbatim>\<open>ContextWindowCompressionConfig\<close> that is constructed or decoded without a
  \<^verbatim>\<open>sliding_window\<close> key has \<open>sliding_window = True\<close>, the declared default, and one
  without a \<^verbatim>\<open>trigger_tokens\<close> key has \<open>trigger_tokens\<close> absent. With both keys missing
  the validation succeeds, whatever other keys are there.
\<close>

theorem sliding_window_default_true:
  "(map_of kvs ''sliding_window'' = None \<and> map_of kvs ''trigger_tokens'' = None \<longrightarrow>
      validate_ContextWindowCompressionConfig L (PyDict kvs)
        = Inr \<lparr>sliding_window = Some True, trigger_tokens = None\<rparr>)
   \<and> (map_of kvs ''sliding_window'' = None
        \<and> validate_ContextWindowCompressionConfig L (PyDict kvs) = Inr c
      \<longrightarrow> sliding_window c = Some True)
   \<and> (map_of kvs ''trigger_tokens'' = None
        \<and> validate_ContextWindowCompressionConfig L (PyDict kvs) = Inr c
      \<longrightarrow> trigger_tokens c = None)"
  by (auto simp: validate_ContextWindowCompressionConfig_def field_defs
        split: option.splits sum.splits)

theorem sliding_window_default_true_witness:
  "map_of ([] :: (string \<times> unit pyobj) list) ''sliding_window'' = None
   \<and> map_of ([] :: (string \<times> unit pyobj) list) ''trigger_tokens'' = None
   \<and> validate_ContextWindowCompressionConfig example_library (PyDict [])
        = Inr \<lparr>sliding_window = Some True, trigger_tokens = None\<rparr>
   \<and> sliding_window \<lparr>sliding_window = Some True, trigger_tokens = None\<rparr> = Some True
   \<and> trigger_tokens \<lparr>sliding_window = Some True, trigger_tokens = None\<rparr> = None"
  using sliding_window_default_true [of "[]" example_library
      "\<lparr>sliding_window = Some True, trigger_tokens = None\<rparr>"]
  by simp

text \<open>
  C10. Decoding a \<^verbatim>\<open>Turn\<close> from an object with a valid \<^verbatim>\<open>parts\<close> list and no \<^verbatim>\<open>role\<close>
  key succeeds, and the resulting turn has the role \<^verbatim>\<open>user\<close>.
\<close>

theorem turn_role_defaults_to_user:
  assumes "map_of kvs ''role'' = None"
    and "map_of kvs ''parts'' = Some v"
    and "validate_list validate_ContentPart v = Inr ps"
  shows "validate_Turn (PyDict kvs) = Inr \<lparr>role = ''user'', parts = ps\<rparr>"
  using assms by (simp add: validate_Turn_def field_defs)

theorem turn_role_defaults_to_user_witness:
  "map_of [(''parts'', PyList [PyDict [(''text'', PyStr ''hello'')]])] ''role'' = None
   \<and> validate_Turn (PyDict [(''parts'', PyList [PyDict [(''text'', PyStr ''hello'' :: unit pyobj)]])])
       = Inr \<lparr>role = ''user'',
              parts = [\<lparr>ContentPart.text' = Some ''hello'', inlineData = None,
                        fileData = None\<rparr>]\<rparr>"
proof -
  have a: "map_of [(''parts'', PyList [PyDict [(''text'', PyStr ''hello'' :: unit pyobj)]])] ''role''
      = None" by simp
  have b: "map_of [(''parts'', PyList [PyDict [(''text'', PyStr ''hello'' :: unit pyobj)]])] ''parts''
      = Some (PyList [PyDict [(''text'', PyStr ''hello'')]])" by simp
  have c: "validate_list validate_ContentPart (PyList [PyDict [(''text'', PyStr ''hello'' :: unit pyobj)]])
      = Inr [\<lparr>ContentPart.text' = Some ''hello'', inlineData = None, fileData = None\<rparr>]"
    by (simp add: validate_list_def validate_ContentPart_def field_defs validate_str_def)
  show ?thesis using a turn_role_defaults_to_user [OF a b c] by simp
qed

section \<open>Strictness of the enumerations\<close>

lemma validate_bool_error: "validate_bool L v = Inl e \<Longrightarrow> e = ValidationError"
  by (auto simp: validate_bool_def split: pyobj.splits option.splits)

lemma nullable_bool_error: "nullable (validate_bool L) v = Inl e \<Longrightarrow> e = ValidationError"
  by (auto simp: nullable_def exn_bind_def split: pyobj.splits sum.splits
        dest: validate_bool_error)

lemma validate_Modality_exact:
  "v \<notin> {PyStr ''MODALITY_UNSPECIFIED'', PyStr ''TEXT'', PyStr ''IMAGE'', PyStr ''AUDIO'',
          PyStr ''VIDEO''}
   \<Longrightarrow> validate_Modality v = Inl ValidationError"
  by (cases v) (simp_all add: validate_Modality_def)

lemma validate_role_exact:
  "v \<notin> {PyStr ''user'', PyStr ''model''} \<Longrightarrow> validate_role v = Inl ValidationError"
  by (cases v) (simp_all add: validate_role_def)

lemma validate_StartSensitivity_exact:
  "v \<notin> {PyStr ''START_SENSITIVITY_UNSPECIFIED'', PyStr ''START_SENSITIVITY_HIGH'',
          PyStr ''START_SENSITIVITY_LOW''}
   \<Longrightarrow> validate_StartSensitivity v = Inl ValidationError"
  by (cases v) (simp_all add: validate_StartSensitivity_def)

lemma validate_EndSensitivity_exact:
  "v \<notin> {PyStr ''END_SENSITIVITY_UNSPECIFIED'', PyStr ''END_SENSITIVITY_HIGH'',
          PyStr ''END_SENSITIVITY_LOW''}
   \<Longrightarrow> validate_EndSensitivity v = Inl ValidationError"
  by (cases v) (simp_all add: validate_EndSensitivity_def)

lemma disabled_field_error:
  "field_with_default ''disabled'' None (nullable (validate_bool L)) kvs = Inl e
   \<Longrightarrow> e = ValidationError"
  by (auto simp: field_with_default_def split: option.splits dest: nullable_bool_error)

lemma start_sensitivity_rejected:
  assumes "validate_StartSensitivity v = Inl ValidationError" and "v \<noteq> PyNone"
    and "map_of kvs ''start_of_speech_sensitivity'' = Some v"
  shows "validate_AutomaticActivityDetection L (PyDict kvs) = Inl ValidationError"
proof (cases "field_with_default ''disabled'' None (nullable (validate_bool L)) kvs")
  case (Inl e)
  then show ?thesis using disabled_field_error [OF Inl]
    by (simp add: validate_AutomaticActivityDetection_def validate_model_def exn_bind_def)
next
  case (Inr d)
  have "nullable validate_StartSensitivity v = Inl ValidationError"
    using assms(1,2) by (cases v) (simp_all add: nullable_def exn_bind_def)
  then show ?thesis using Inr assms(3)
    by (simp add: validate_AutomaticActivityDetection_def validate_model_def exn_bind_def
          field_with_default_def)
qed


lemma validate_int_error: "validate_int L v = Inl e \<Longrightarrow> e = ValidationError"
  by (auto simp: validate_int_def split: pyobj.splits option.splits)

lemma validate_StartSensitivity_error:
  "validate_StartSensitivity v = Inl e \<Longrightarrow> e = ValidationError"
  by (auto simp: validate_StartSensitivity_def split: pyobj.splits if_splits)

lemma validate_EndSensitivity_error:
  "validate_EndSensitivity v = Inl e \<Longrightarrow> e = ValidationError"
  by (auto simp: validate_EndSensitivity_def split: pyobj.splits if_splits)

lemma optional_field_error:
  assumes "\<And>v e. validate v = Inl e \<Longrightarrow> e = ValidationError"
    and "field_with_default k None (nullable validate) kvs = Inl e"
  shows "e = ValidationError"
  using assms(2)
  by (auto simp: field_with_default_def nullable_def exn_bind_def
        split: option.splits pyobj.splits sum.splits dest: assms(1))

lemma exn_bind_error:
  assumes "exn_bind m f = Inl e"
  shows "m = Inl e \<or> (\<exists>x. m = Inr x \<and> f x = Inl e)"
  using assms by (cases m) (simp_all add: exn_bind_def)

lemma bool_field_error:
  "field_with_default k None (nullable (validate_bool L)) kvs = Inl e \<Longrightarrow> e = ValidationError"
  by (erule optional_field_error [rotated]) (rule validate_bool_error)

lemma int_field_error:
  "field_with_default k None (nullable (validate_int L)) kvs = Inl e \<Longrightarrow> e = ValidationError"
  by (erule optional_field_error [rotated]) (rule validate_int_error)

lemma start_field_error:
  "field_with_default k None (nullable validate_StartSensitivity) kvs = Inl e
   \<Longrightarrow> e = ValidationError"
  by (erule optional_field_error [rotated]) (rule validate_StartSensitivity_error)

lemma end_field_error:
  "field_with_default k None (nullable validate_EndSensitivity) kvs = Inl e
   \<Longrightarrow> e = ValidationError"
  by (erule optional_field_error [rotated]) (rule validate_EndSensitivity_error)

lemma validate_AutomaticActivityDetection_error:
  assumes "validate_AutomaticActivityDetection L v = Inl e"
  shows "e = ValidationError"
proof (cases v)
  case (PyDict kvs)
  from assms PyDict show ?thesis
    unfolding validate_AutomaticActivityDetection_def validate_model_def
    by (auto dest!: exn_bind_error
          dest: bool_field_error int_field_error start_field_error end_field_error)
qed (use assms in \<open>simp_all add: validate_AutomaticActivityDetection_def validate_model_def\<close>)

lemma end_sensitivity_rejected:
  assumes "validate_EndSensitivity v = Inl ValidationError" and "v \<noteq> PyNone"
    and "map_of kvs ''end_of_speech_sensitivity'' = Some v"
  shows "validate_AutomaticActivityDetection L (PyDict kvs) = Inl ValidationError"
proof (cases "validate_AutomaticActivityDetection L (PyDict kvs)")
  case (Inl e)
  then show ?thesis using validate_AutomaticActivityDetection_error [OF Inl] by simp
next
  case (Inr r)
  have "nullable validate_EndSensitivity v = Inl ValidationError"
    using assms(1,2) by (cases v) (simp_all add: nullable_def exn_bind_def)
  then have "field_with_default ''end_of_speech_sensitivity'' None
      (nullable validate_EndSensitivity) kvs = Inl ValidationError"
    using assms(3) by (simp add: field_with_default_def)
  with Inr show ?thesis
    unfolding validate_AutomaticActivityDetection_def validate_model_def
    by (auto simp: exn_bind_def split: sum.splits)
qed

text \<open>
  C5. An enum-typed field accepts the exact strings of its enumeration and nothing else:
  for any other value the enum validator fails, and so does the validation of the
  structure that holds the field. A \<^verbatim>\<open>Turn\<close> whose \<^verbatim>\<open>role\<close> is anything but \<^verbatim>\<open>user\<close> or
  \<^verbatim>\<open>model\<close> is rejected, and so is a \<^verbatim>\<open>ModalityTokenCount\<close> whose \<^verbatim>\<open>modality\<close> is not one
  of the five \<^verbatim>\<open>Modality\<close> strings. The two sensitivity fields are declared
  \<^verbatim>\<open>Optional\<close>: there \<^verbatim>\<open>None\<close> stands for the absent field, and every other value that
  is not an exact string of the enumeration is rejected.
\<close>

theorem enum_values_are_exact:
  "(v \<notin> {PyStr ''MODALITY_UNSPECIFIED'', PyStr ''TEXT'', PyStr ''IMAGE'', PyStr ''AUDIO'',
           PyStr ''VIDEO''} \<longrightarrow>
      validate_Modality v = Inl ValidationError
      \<and> (map_of kvs ''modality'' = Some v \<longrightarrow>
           validate_ModalityTokenCount L (PyDict kvs) = Inl ValidationError))
   \<and> (v \<notin> {PyStr ''user'', PyStr ''model''} \<longrightarrow>
      validate_role v = Inl ValidationError
      \<and> (map_of kvs ''role'' = Some v \<longrightarrow> validate_Turn (PyDict kvs) = Inl ValidationError))
   \<and> (v \<notin> {PyStr ''START_SENSITIVITY_UNSPECIFIED'', PyStr ''START_SENSITIVITY_HIGH'',
           PyStr ''START_SENSITIVITY_LOW''} \<longrightarrow>
      validate_StartSensitivity v = Inl ValidationError
      \<and> (v \<noteq> PyNone \<and> map_of kvs ''start_of_speech_sensitivity'' = Some v \<longrightarrow>
           validate_AutomaticActivityDetection L (PyDict kvs) = Inl ValidationError))
   \<and> (v \<notin> {PyStr ''END_SENSITIVITY_UNSPECIFIED'', PyStr ''END_SENSITIVITY_HIGH'',
           PyStr ''END_SENSITIVITY_LOW''} \<longrightarrow>
      validate_EndSensitivity v = Inl ValidationError
      \<and> (v \<noteq> PyNone \<and> map_of kvs ''end_of_speech_sensitivity'' = Some v \<longrightarrow>
           validate_AutomaticActivityDetection L (PyDict kvs) = Inl ValidationError))"
proof (intro conjI impI)
  assume a: "v \<notin> {PyStr ''MODALITY_UNSPECIFIED'', PyStr ''TEXT'', PyStr ''IMAGE'',
    PyStr ''AUDIO'', PyStr ''VIDEO''}"
  show m: "validate_Modality v = Inl ValidationError"
    using a by (rule validate_Modality_exact)
  assume "map_of kvs ''modality'' = Some v"
  then show "validate_ModalityTokenCount L (PyDict kvs) = Inl ValidationError"
    using m by (simp add: validate_ModalityTokenCount_def validate_model_def
        required_field_def exn_bind_def)
next
  assume a: "v \<notin> {PyStr ''user'', PyStr ''model''}"
  show r: "validate_role v = Inl ValidationError"
    using a by (rule validate_role_exact)
  assume "map_of kvs ''role'' = Some v"
  then show "validate_Turn (PyDict kvs) = Inl ValidationError"
    using r by (simp add: validate_Turn_def validate_model_def field_with_default_def
        exn_bind_def)
next
  assume a: "v \<notin> {PyStr ''START_SENSITIVITY_UNSPECIFIED'', PyStr ''START_SENSITIVITY_HIGH'',
    PyStr ''START_SENSITIVITY_LOW''}"
  show s: "validate_StartSensitivity v = Inl ValidationError"
    using a by (rule validate_StartSensitivity_exact)
  assume "v \<noteq> PyNone \<and> map_of kvs ''start_of_speech_sensitivity'' = Some v"
  then show "validate_AutomaticActivityDetection L (PyDict kvs) = Inl ValidationError"
    using s start_sensitivity_rejected by blast
next
  assume a: "v \<notin> {PyStr ''END_SENSITIVITY_UNSPECIFIED'', PyStr ''END_SENSITIVITY_HIGH'',
    PyStr ''END_SENSITIVITY_LOW''}"
  show s: "validate_EndSensitivity v = Inl ValidationError"
    using a by (rule validate_EndSensitivity_exact)
  assume "v \<noteq> PyNone \<and> map_of kvs ''end_of_speech_sensitivity'' = Some v"
  then show "validate_AutomaticActivityDetection L (PyDict kvs) = Inl ValidationError"
    using s end_sensitivity_rejected by blast
qed

theorem enum_values_are_exact_witness:
  "validate_role (PyStr ''system'' :: unit pyobj) = Inl ValidationError
   \<and> validate_Turn (PyDict [(''role'', PyStr ''system''), (''parts'', PyList [])]
        :: unit pyobj) = Inl ValidationError
   \<and> validate_Modality (PyStr ''text'' :: unit pyobj) = Inl ValidationError
   \<and> validate_ModalityTokenCount example_library
        (PyDict [(''modality'', PyStr ''text''), (''tokenCount'', PyInt 3)])
        = Inl ValidationError
   \<and> validate_StartSensitivity (PyStr ''HIGH'' :: unit pyobj) = Inl ValidationError
   \<and> validate_AutomaticActivityDetection example_library
        (PyDict [(''start_of_speech_sensitivity'', PyStr ''HIGH'')]) = Inl ValidationError
   \<and> validate_EndSensitivity (PyStr ''HIGH'' :: unit pyobj) = Inl ValidationError
   \<and> validate_AutomaticActivityDetection example_library
        (PyDict [(''end_of_speech_sensitivity'', PyStr ''HIGH'')]) = Inl ValidationError"
  using
    enum_values_are_exact [of "PyStr ''system''"
      "[(''role'', PyStr ''system''), (''parts'', PyList [])]" example_library]
    enum_values_are_exact [of "PyStr ''text''"
      "[(''modality'', PyStr ''text''), (''tokenCount'', PyInt 3)]" example_library]
    enum_values_are_exact [of "PyStr ''HIGH''"
      "[(''start_of_speech_sensitivity'', PyStr ''HIGH'')]" example_library]
    enum_values_are_exact [of "PyStr ''HIGH''"
      "[(''end_of_speech_sensitivity'', PyStr ''HIGH'')]" example_library]
  by simp

section \<open>ContentPart as a union by optional fields\<close>

lemma validate_ContentPart_fieldwise:
  "validate_ContentPart (PyDict kvs) = Inr p \<longleftrightarrow>
     field_with_default ''text'' None (nullable validate_str) kvs = Inr (ContentPart.text' p)
     \<and> field_with_default ''inlineData'' None (nullable validate_MediaChunk) kvs
         = Inr (ContentPart.inlineData p)
     \<and> field_with_default ''fileData'' None (nullable validate_FileData) kvs
         = Inr (ContentPart.fileData p)"
  by (cases p)
     (auto simp: validate_ContentPart_def validate_model_def exn_bind_def split: sum.splits)

lemma validate_content_part_dict:
  "validate_ContentPart (PyDict (content_part_dict p)) = Inr p"
proof -
  obtain t i f where p: "p = \<lparr>ContentPart.text' = t, inlineData = i, fileData = f\<rparr>"
    by (cases p) simp
  show ?thesis unfolding p
    by (cases t; cases i; cases f)
       (simp_all add: content_part_dict_def validate_ContentPart_def validate_model_def
          exn_bind_def field_with_default_def nullable_def validate_str_def
          validate_MediaChunk_def validate_FileData_def required_field_def)
qed

text \<open>
  C7. The claim is that a \<^verbatim>\<open>ContentPart\<close> always has exactly one of \<^verbatim>\<open>text\<close>,
  \<^verbatim>\<open>inlineData\<close> and \<^verbatim>\<open>fileData\<close> present, and that zero or several are rejected. The class
  declares three independent optional fields and no validator over them: the empty
  object validates to a part with no field present, and an object with \<^verbatim>\<open>text\<close> and
  \<^verbatim>\<open>fileData\<close> validates to a part with two fields present.
\<close>

theorem content_part_exactly_one_counterexample:
  "validate_ContentPart (PyDict [] :: unit pyobj)
     = Inr \<lparr>ContentPart.text' = None, inlineData = None, fileData = None\<rparr>
   \<and> present_fields \<lparr>ContentPart.text' = None, inlineData = None, fileData = None\<rparr> = 0
   \<and> validate_ContentPart
        (PyDict [(''text'', PyStr ''hi''),
                 (''fileData'', PyDict [(''mimeType'', PyStr ''video/mp4''),
                                        (''fileUri'', PyStr ''files/abc'')])] :: unit pyobj)
     = Inr \<lparr>ContentPart.text' = Some ''hi'', inlineData = None,
            fileData = Some \<lparr>FileData.mimeType = ''video/mp4'', fileUri = ''files/abc''\<rparr>\<rparr>
   \<and> present_fields
        \<lparr>ContentPart.text' = Some ''hi'', inlineData = None,
         fileData = Some \<lparr>FileData.mimeType = ''video/mp4'', fileUri = ''files/abc''\<rparr>\<rparr> = 2"
  by (simp add: validate_ContentPart_def validate_model_def exn_bind_def
        field_with_default_def nullable_def validate_str_def validate_FileData_def
        required_field_def present_fields_def)

text \<open>
  C7, as amended. A \<^verbatim>\<open>ContentPart\<close> is a union by optional fields: each of \<^verbatim>\<open>text\<close>,
  \<^verbatim>\<open>inlineData\<close> and \<^verbatim>\<open>fileData\<close> is present or absent on its own. Validation succeeds
  exactly when each field, taken alone, is absent or valid, whatever the number of fields
  present; every combination of present and absent fields is the result of validating
  some object.
\<close>

theorem content_part_fields_independent:
  "(validate_ContentPart (PyDict kvs) = Inr p \<longleftrightarrow>
     field_with_default ''text'' None (nullable validate_str) kvs = Inr (ContentPart.text' p)
     \<and> field_with_default ''inlineData'' None (nullable validate_MediaChunk) kvs
         = Inr (ContentPart.inlineData p)
     \<and> field_with_default ''fileData'' None (nullable validate_FileData) kvs
         = Inr (ContentPart.fileData p))
   \<and> (\<exists>d :: (string \<times> 'f pyobj) list. validate_ContentPart (PyDict d) = Inr q)
   \<and> present_fields q \<le> 3"
  using validate_ContentPart_fieldwise [of kvs p] validate_content_part_dict [of q]
  by (auto simp: present_fields_def)

section \<open>Unknown fields\<close>

lemma map_of_keep_pairs:
  "distinct (map fst fs) \<Longrightarrow>
   map_of (keep_pairs fs kvs) k
     = (case map_of fs k of None \<Rightarrow> None | Some f \<Rightarrow> map_option f (map_of kvs k))"
proof (induction fs arbitrary: k)
  case Nil
  then show ?case by (simp add: keep_pairs_def map_filter_simps)
next
  case (Cons p fs)
  obtain k' f where p: "p = (k', f)" by (cases p)
  have absent: "map_of fs k' = None"
    using Cons.prems p by (simp add: map_of_eq_None_iff)
  have IH: "\<And>k. map_of (keep_pairs fs kvs) k
      = (case map_of fs k of None \<Rightarrow> None | Some f \<Rightarrow> map_option f (map_of kvs k))"
    using Cons.IH Cons.prems by (simp add: keep_pairs_def)
  have step: "keep_pairs ((k', f) # fs) kvs
      = (case map_of kvs k' of None \<Rightarrow> keep_pairs fs kvs
         | Some v \<Rightarrow> (k', f v) # keep_pairs fs kvs)"
    by (simp add: keep_pairs_def map_filter_simps split: option.split)
  have "map_of (keep_pairs ((k', f) # fs) kvs) k
      = (case map_of ((k', f) # fs) k of None \<Rightarrow> None
         | Some f \<Rightarrow> map_option f (map_of kvs k))"
  proof (cases "k = k'")
    case True
    then show ?thesis using IH [of k'] absent by (simp add: step split: option.split)
  next
    case False
    then show ?thesis using IH [of k] by (simp add: step split: option.split)
  qed
  then show ?case by (simp only: p)
qed

lemma field_with_default_keep_pairs:
  "distinct (map fst fs) \<Longrightarrow> map_of fs k \<noteq> None \<Longrightarrow>
   field_with_default k d V (keep_pairs fs kvs)
     = field_with_default k d (V \<circ> the (map_of fs k)) kvs"
  by (auto simp: field_with_default_def map_of_keep_pairs split: option.split)

lemma required_field_keep_pairs:
  "distinct (map fst fs) \<Longrightarrow> map_of fs k \<noteq> None \<Longrightarrow>
   required_field k V (keep_pairs fs kvs) = required_field k (V \<circ> the (map_of fs k)) kvs"
  by (auto simp: required_field_def map_of_keep_pairs split: option.split)

lemma validate_model_keep_fields:
  assumes "\<And>kvs. of_dict (keep_pairs fs kvs) = of_dict kvs"
  shows "validate_model of_dict \<circ> keep_fields fs = validate_model of_dict"
proof
  fix v :: "'a pyobj"
  show "(validate_model of_dict \<circ> keep_fields fs) v = validate_model of_dict v"
    by (cases v) (simp_all add: validate_model_def keep_fields_def assms)
qed

lemma keep_fields_None: "keep_fields fs v = PyNone \<longleftrightarrow> v = PyNone"
  by (cases v) (simp_all add: keep_fields_def)

lemma keep_items_None: "keep_items f v = PyNone \<longleftrightarrow> v = PyNone"
  by (cases v) (simp_all add: keep_items_def)

lemma nullable_not_None:
  "v \<noteq> PyNone \<Longrightarrow> nullable V v = exn_bind (V v) (\<lambda>x. Inr (Some x))"
  by (cases v) (simp_all add: nullable_def)

lemma nullable_comp:
  assumes "V \<circ> f = V" and "\<And>v. f v = PyNone \<longleftrightarrow> v = PyNone"
  shows "nullable V \<circ> f = nullable V"
proof
  fix v :: "'a pyobj"
  have V: "V (f v) = V v" using assms(1) by (metis comp_apply)
  show "(nullable V \<circ> f) v = nullable V v"
  proof (cases "v = PyNone")
    case True
    then have "f v = PyNone" using assms(2) by simp
    then show ?thesis using True by (simp add: nullable_def)
  next
    case False
    then have "f v \<noteq> PyNone" using assms(2) by simp
    then show ?thesis using False V by (simp add: nullable_not_None)
  qed
qed

lemma validate_items_map:
  assumes "V \<circ> f = V"
  shows "validate_items V (map f xs) = validate_items V xs"
proof (induction xs)
  case Nil
  show ?case by simp
next
  case (Cons x xs)
  have "V (f x) = V x" using assms by (metis comp_apply)
  then show ?case using Cons by simp
qed

lemma validate_list_keep_items:
  assumes "V \<circ> f = V"
  shows "validate_list V \<circ> keep_items f = validate_list V"
proof
  fix v :: "'a pyobj"
  show "(validate_list V \<circ> keep_items f) v = validate_list V v"
    by (cases v) (simp_all add: validate_list_def keep_items_def validate_items_map [OF assms])
qed

lemma validate_modelled_SearchEntryPoint:
  "validate_SearchEntryPoint \<circ> modelled_SearchEntryPoint
     = validate_SearchEntryPoint"
  unfolding validate_SearchEntryPoint_def modelled_SearchEntryPoint_def
  by (rule validate_model_keep_fields)
     (simp add: field_with_default_keep_pairs required_field_keep_pairs)

lemma modelled_SearchEntryPoint_None: "modelled_SearchEntryPoint v = PyNone \<longleftrightarrow> v = PyNone"
  by (simp add: modelled_SearchEntryPoint_def keep_fields_None)

lemma nullable_modelled_SearchEntryPoint:
  "nullable validate_SearchEntryPoint \<circ> modelled_SearchEntryPoint
     = nullable validate_SearchEntryPoint"
  by (rule nullable_comp [OF validate_modelled_SearchEntryPoint modelled_SearchEntryPoint_None])

lemma validate_modelled_WebSource:
  "validate_WebSource \<circ> modelled_WebSource = validate_WebSource"
  unfolding validate_WebSource_def modelled_WebSource_def
  by (rule validate_model_keep_fields)
     (simp add: field_with_default_keep_pairs required_field_keep_pairs)

lemma modelled_WebSource_None: "modelled_WebSource v = PyNone \<longleftrightarrow> v = PyNone"
  by (simp add: modelled_WebSource_def keep_fields_None)

lemma nullable_modelled_WebSource:
  "nullable validate_WebSource \<circ> modelled_WebSource = nullable validate_WebSource"
  by (rule nullable_comp [OF validate_modelled_WebSource modelled_WebSource_None])

lemma validate_modelled_GroundingChunk:
  "validate_GroundingChunk \<circ> modelled_GroundingChunk = validate_GroundingChunk"
  unfolding validate_GroundingChunk_def modelled_GroundingChunk_def
  by (rule validate_model_keep_fields)
     (simp add: field_with_default_keep_pairs required_field_keep_pairs
        nullable_modelled_WebSource)

lemma modelled_GroundingChunk_None: "modelled_GroundingChunk v = PyNone \<longleftrightarrow> v = PyNone"
  by (simp add: modelled_GroundingChunk_def keep_fields_None)

lemma items_modelled_GroundingChunk:
  "validate_list validate_GroundingChunk \<circ> keep_items modelled_GroundingChunk
     = validate_list validate_GroundingChunk"
  by (rule validate_list_keep_items [OF validate_modelled_GroundingChunk])

lemma nullable_items_modelled_GroundingChunk:
  "nullable (validate_list validate_GroundingChunk) \<circ> keep_items modelled_GroundingChunk
     = nullable (validate_list validate_GroundingChunk)"
  by (rule nullable_comp [OF items_modelled_GroundingChunk keep_items_None])

lemma validate_modelled_GroundingSegment:
  "validate_GroundingSegment L \<circ> modelled_GroundingSegment
     = validate_GroundingSegment L"
  unfolding validate_GroundingSegment_def modelled_GroundingSegment_def
  by (rule validate_model_keep_fields)
     (simp add: field_with_default_keep_pairs required_field_keep_pairs)

lemma modelled_GroundingSegment_None: "modelled_GroundingSegment v = PyNone \<longleftrightarrow> v = PyNone"
  by (simp add: modelled_GroundingSegment_def keep_fields_None)

lemma nullable_modelled_GroundingSegment:
  "nullable (validate_GroundingSegment L) \<circ> modelled_GroundingSegment
     = nullable (validate_GroundingSegment L)"
  by (rule nullable_comp [OF validate_modelled_GroundingSegment modelled_GroundingSegment_None])

lemma validate_modelled_GroundingSupport:
  "validate_GroundingSupport L \<circ> modelled_GroundingSupport
     = validate_GroundingSupport L"
  unfolding validate_GroundingSupport_def modelled_GroundingSupport_def
  by (rule validate_model_keep_fields)
     (simp add: field_with_default_keep_pairs required_field_keep_pairs
        nullable_modelled_GroundingSegment)

lemma modelled_GroundingSupport_None: "modelled_GroundingSupport v = PyNone \<longleftrightarrow> v = PyNone"
  by (simp add: modelled_GroundingSupport_def keep_fields_None)

lemma items_modelled_GroundingSupport:
  "validate_list (validate_GroundingSupport L) \<circ> keep_items modelled_GroundingSupport
     = validate_list (validate_GroundingSupport L)"
  by (rule validate_list_keep_items [OF validate_modelled_GroundingSupport])

lemma nullable_items_modelled_GroundingSupport:
  "nullable (validate_list (validate_GroundingSupport L)) \<circ> keep_items modelled_GroundingSupport
     = nullable (validate_list (validate_GroundingSupport L))"
  by (rule nullable_comp [OF items_modelled_GroundingSupport keep_items_None])

lemma validate_modelled_GroundingMetadata:
  "validate_GroundingMetadata L \<circ> modelled_GroundingMetadata
     = validate_GroundingMetadata L"
  unfolding validate_GroundingMetadata_def modelled_GroundingMetadata_def
  by (rule validate_model_keep_fields)
     (simp add: field_with_default_keep_pairs required_field_keep_pairs
        nullable_items_modelled_GroundingChunk
        nullable_items_modelled_GroundingSupport
        nullable_modelled_SearchEntryPoint)

lemma modelled_GroundingMetadata_None: "modelled_GroundingMetadata v = PyNone \<longleftrightarrow> v = PyNone"
  by (simp add: modelled_GroundingMetadata_def keep_fields_None)

lemma nullable_modelled_GroundingMetadata:
  "nullable (validate_GroundingMetadata L) \<circ> modelled_GroundingMetadata
     = nullable (validate_GroundingMetadata L)"
  by (rule nullable_comp [OF validate_modelled_GroundingMetadata modelled_GroundingMetadata_None])

lemma validate_modelled_SetupComplete:
  "validate_SetupComplete \<circ> modelled_SetupComplete = validate_SetupComplete"
  unfolding validate_SetupComplete_def modelled_SetupComplete_def
  by (rule validate_model_keep_fields)
     (simp add: field_with_default_keep_pairs required_field_keep_pairs)

lemma modelled_SetupComplete_None: "modelled_SetupComplete v = PyNone \<longleftrightarrow> v = PyNone"
  by (simp add: modelled_SetupComplete_def keep_fields_None)

lemma nullable_modelled_SetupComplete:
  "nullable validate_SetupComplete \<circ> modelled_SetupComplete
     = nullable validate_SetupComplete"
  by (rule nullable_comp [OF validate_modelled_SetupComplete modelled_SetupComplete_None])

lemma validate_modelled_InlineData:
  "validate_InlineData \<circ> modelled_InlineData = validate_InlineData"
  unfolding validate_InlineData_def modelled_InlineData_def
  by (rule validate_model_keep_fields)
     (simp add: field_with_default_keep_pairs required_field_keep_pairs)

lemma modelled_InlineData_None: "modelled_InlineData v = PyNone \<longleftrightarrow> v = PyNone"
  by (simp add: modelled_InlineData_def keep_fields_None)

lemma nullable_modelled_InlineData:
  "nullable validate_InlineData \<circ> modelled_InlineData
     = nullable validate_InlineData"
  by (rule nullable_comp [OF validate_modelled_InlineData modelled_InlineData_None])

lemma validate_modelled_Part:
  "validate_Part \<circ> modelled_Part = validate_Part"
  unfolding validate_Part_def modelled_Part_def
  by (rule validate_model_keep_fields)
     (simp add: field_with_default_keep_pairs required_field_keep_pairs
        nullable_modelled_InlineData)

lemma modelled_Part_None: "modelled_Part v = PyNone \<longleftrightarrow> v = PyNone"
  by (simp add: modelled_Part_def keep_fields_None)

lemma items_modelled_Part:
  "validate_list validate_Part \<circ> keep_items modelled_Part
     = validate_list validate_Part"
  by (rule validate_list_keep_items [OF validate_modelled_Part])

lemma validate_modelled_ModelTurn:
  "validate_ModelTurn \<circ> modelled_ModelTurn = validate_ModelTurn"
  unfolding validate_ModelTurn_def modelled_ModelTurn_def
  by (rule validate_model_keep_fields)
     (simp add: field_with_default_keep_pairs required_field_keep_pairs
        items_modelled_Part)

lemma modelled_ModelTurn_None: "modelled_ModelTurn v = PyNone \<longleftrightarrow> v = PyNone"
  by (simp add: modelled_ModelTurn_def keep_fields_None)

lemma nullable_modelled_ModelTurn:
  "nullable validate_ModelTurn \<circ> modelled_ModelTurn = nullable validate_ModelTurn"
  by (rule nullable_comp [OF validate_modelled_ModelTurn modelled_ModelTurn_None])

lemma validate_modelled_BidiGenerateContentTranscription:
  "validate_BidiGenerateContentTranscription \<circ> modelled_BidiGenerateContentTranscription
     = validate_BidiGenerateContentTranscription"
  unfolding validate_BidiGenerateContentTranscription_def modelled_BidiGenerateContentTranscription_def
  by (rule validate_model_keep_fields)
     (simp add: field_with_default_keep_pairs required_field_keep_pairs)

lemma modelled_BidiGenerateContentTranscription_None: "modelled_BidiGenerateContentTranscription v = PyNone \<longleftrightarrow> v = PyNone"
  by (simp add: modelled_BidiGenerateContentTranscription_def keep_fields_None)

lemma nullable_modelled_BidiGenerateContentTranscription:
  "nullable validate_BidiGenerateContentTranscription \<circ> modelled_BidiGenerateContentTranscription
     = nullable validate_BidiGenerateContentTranscription"
  by (rule nullable_comp [OF validate_modelled_BidiGenerateContentTranscription modelled_BidiGenerateContentTranscription_None])

lemma validate_modelled_ServerContent:
  "validate_ServerContent L \<circ> modelled_ServerContent = validate_ServerContent L"
  unfolding validate_ServerContent_def modelled_ServerContent_def
  by (rule validate_model_keep_fields)
     (simp add: field_with_default_keep_pairs required_field_keep_pairs
        nullable_modelled_BidiGenerateContentTranscription
        nullable_modelled_GroundingMetadata
        nullable_modelled_ModelTurn)

lemma modelled_ServerContent_None: "modelled_ServerContent v = PyNone \<longleftrightarrow> v = PyNone"
  by (simp add: modelled_ServerContent_def keep_fields_None)

lemma nullable_modelled_ServerContent:
  "nullable (validate_ServerContent L) \<circ> modelled_ServerContent
     = nullable (validate_ServerContent L)"
  by (rule nullable_comp [OF validate_modelled_ServerContent modelled_ServerContent_None])

lemma validate_modelled_FunctionCall:
  "validate_FunctionCall \<circ> modelled_FunctionCall = validate_FunctionCall"
  unfolding validate_FunctionCall_def modelled_FunctionCall_def
  by (rule validate_model_keep_fields)
     (simp add: field_with_default_keep_pairs required_field_keep_pairs)

lemma modelled_FunctionCall_None: "modelled_FunctionCall v = PyNone \<longleftrightarrow> v = PyNone"
  by (simp add: modelled_FunctionCall_def keep_fields_None)

lemma items_modelled_FunctionCall:
  "validate_list validate_FunctionCall \<circ> keep_items modelled_FunctionCall
     = validate_list validate_FunctionCall"
  by (rule validate_list_keep_items [OF validate_modelled_FunctionCall])

lemma validate_modelled_ToolCall:
  "validate_ToolCall \<circ> modelled_ToolCall = validate_ToolCall"
  unfolding validate_ToolCall_def modelled_ToolCall_def
  by (rule validate_model_keep_fields)
     (simp add: field_with_default_keep_pairs required_field_keep_pairs
        items_modelled_FunctionCall)

lemma modelled_ToolCall_None: "modelled_ToolCall v = PyNone \<longleftrightarrow> v = PyNone"
  by (simp add: modelled_ToolCall_def keep_fields_None)

lemma nullable_modelled_ToolCall:
  "nullable validate_ToolCall \<circ> modelled_ToolCall = nullable validate_ToolCall"
  by (rule nullable_comp [OF validate_modelled_ToolCall modelled_ToolCall_None])

lemma validate_modelled_ModalityTokenCount:
  "validate_ModalityTokenCount L \<circ> modelled_ModalityTokenCount
     = validate_ModalityTokenCount L"
  unfolding validate_ModalityTokenCount_def modelled_ModalityTokenCount_def
  by (rule validate_model_keep_fields)
     (simp add: field_with_default_keep_pairs required_field_keep_pairs)

lemma modelled_ModalityTokenCount_None: "modelled_ModalityTokenCount v = PyNone \<longleftrightarrow> v = PyNone"
  by (simp add: modelled_ModalityTokenCount_def keep_fields_None)

lemma items_modelled_ModalityTokenCount:
  "validate_list (validate_ModalityTokenCount L) \<circ> keep_items modelled_ModalityTokenCount
     = validate_list (validate_ModalityTokenCount L)"
  by (rule validate_list_keep_items [OF validate_modelled_ModalityTokenCount])

lemma nullable_items_modelled_ModalityTokenCount:
  "nullable (validate_list (validate_ModalityTokenCount L)) \<circ> keep_items modelled_ModalityTokenCount
     = nullable (validate_list (validate_ModalityTokenCount L))"
  by (rule nullable_comp [OF items_modelled_ModalityTokenCount keep_items_None])

lemma validate_modelled_UsageMetadata:
  "validate_UsageMetadata L \<circ> modelled_UsageMetadata = validate_UsageMetadata L"
  unfolding validate_UsageMetadata_def modelled_UsageMetadata_def
  by (rule validate_model_keep_fields)
     (simp add: field_with_default_keep_pairs required_field_keep_pairs
        nullable_items_modelled_ModalityTokenCount)

lemma modelled_UsageMetadata_None: "modelled_UsageMetadata v = PyNone \<longleftrightarrow> v = PyNone"
  by (simp add: modelled_UsageMetadata_def keep_fields_None)

lemma nullable_modelled_UsageMetadata:
  "nullable (validate_UsageMetadata L) \<circ> modelled_UsageMetadata
     = nullable (validate_UsageMetadata L)"
  by (rule nullable_comp [OF validate_modelled_UsageMetadata modelled_UsageMetadata_None])

lemma validate_modelled_ServerEvent:
  "validate_ServerEvent L \<circ> modelled_ServerEvent = validate_ServerEvent L"
  unfolding validate_ServerEvent_def modelled_ServerEvent_def
  by (rule validate_model_keep_fields)
     (simp add: field_with_default_keep_pairs required_field_keep_pairs
        nullable_modelled_ServerContent
        nullable_modelled_SetupComplete
        nullable_modelled_ToolCall
        nullable_modelled_UsageMetadata)

lemma modelled_ServerEvent_None: "modelled_ServerEvent v = PyNone \<longleftrightarrow> v = PyNone"
  by (simp add: modelled_ServerEvent_def keep_fields_None)

lemma nullable_modelled_ServerEvent:
  "nullable (validate_ServerEvent L) \<circ> modelled_ServerEvent
     = nullable (validate_ServerEvent L)"
  by (rule nullable_comp [OF validate_modelled_ServerEvent modelled_ServerEvent_None])





lemma try_block_dict:
  assumes "json_loads L s = Inr (PyDict kvs)"
  shows "try_block L s =
     (case map_of kvs ''serverContent'' of
        None \<Rightarrow> validate_ServerEvent L (PyDict kvs)
      | Some v \<Rightarrow> exn_bind (py_contains ''groundingMetadata'' v)
                    (\<lambda>_. validate_ServerEvent L (PyDict kvs)))"
  using assms by (auto simp: try_block_def exn_bind_def split: option.splits sum.splits)

lemma parse_server_event_result:
  "fst (parse_server_event L s logger)
     = (case try_block L s of Inr evt \<Rightarrow> Some evt | Inl e \<Rightarrow> None)"
  by (simp add: parse_server_event_cases split: sum.split)


lemma example_loads_setup:
  "json_loads example_library msg_setup = Inr (PyDict [(''setupComplete'', PyDict [])])"
  by (simp add: example_library_def example_loads_def)


lemma parse_msg_setup:
  "fst (parse_server_event example_library msg_setup logger)
     = Some \<lparr>setupComplete = Some SetupComplete, serverContent = None, toolCall = None,
             usageMetadata = None\<rparr>"
  by (simp add: parse_server_event_result try_block_dict [OF example_loads_setup]
        validate_ServerEvent_def validate_SetupComplete_def validate_model_def
        field_with_default_def nullable_def exn_bind_def)





section \<open>Valid payloads\<close>

lemma optional_field_maps:
  assumes "field_with_default k None (nullable validate) kvs = Inr r"
  shows "(map_of kvs k = None \<longrightarrow> r = None)
       \<and> (map_of kvs k = Some PyNone \<longrightarrow> r = None)
       \<and> (\<forall>v. map_of kvs k = Some v \<and> v \<noteq> PyNone \<longrightarrow> (\<exists>x. validate v = Inr x \<and> r = Some x))"
  using assms
  by (auto simp: field_with_default_def nullable_def exn_bind_def
        split: option.splits pyobj.splits sum.splits)

lemma validate_ServerEvent_fields:
  assumes "validate_ServerEvent L (PyDict kvs) = Inr evt"
  shows "field_with_default ''setupComplete'' None (nullable validate_SetupComplete) kvs
           = Inr (setupComplete evt)"
    and "field_with_default ''serverContent'' None (nullable (validate_ServerContent L)) kvs
           = Inr (serverContent evt)"
    and "field_with_default ''toolCall'' None (nullable validate_ToolCall) kvs
           = Inr (toolCall evt)"
    and "field_with_default ''usageMetadata'' None (nullable (validate_UsageMetadata L)) kvs
           = Inr (usageMetadata evt)"
  using assms
  by (auto simp: validate_ServerEvent_def validate_model_def exn_bind_def split: sum.splits)

lemma validate_ServerContent_is_dict:
  "validate_ServerContent L v = Inr c \<Longrightarrow> \<exists>kvs. v = PyDict kvs"
  by (cases v) (simp_all add: validate_ServerContent_def validate_model_def)

text \<open>
  What \<^verbatim>\<open>parse_server_event\<close> does on a payload that \<^verbatim>\<open>ServerEvent\<close> validates and whose
  \<^verbatim>\<open>serverContent\<close> is not \<^verbatim>\<open>null\<close>: it returns the validated event, in which a field
  whose key is missing is \<open>None\<close> and a field whose key holds a value is the validated
  value.
\<close>

lemma parse_server_event_maps_fields:
  assumes "json_loads L s = Inr (PyDict kvs)"
    and "validate_ServerEvent L (PyDict kvs) = Inr evt"
    and "map_of kvs ''serverContent'' \<noteq> Some PyNone"
  shows "fst (parse_server_event L s logger) = Some evt"
    and "map_of kvs ''setupComplete'' = None \<longrightarrow> setupComplete evt = None"
    and "map_of kvs ''serverContent'' = None \<longrightarrow> serverContent evt = None"
    and "map_of kvs ''toolCall'' = None \<longrightarrow> toolCall evt = None"
    and "map_of kvs ''usageMetadata'' = None \<longrightarrow> usageMetadata evt = None"
    and "\<forall>v. map_of kvs ''setupComplete'' = Some v \<and> v \<noteq> PyNone
           \<longrightarrow> (\<exists>x. validate_SetupComplete v = Inr x \<and> setupComplete evt = Some x)"
    and "\<forall>v. map_of kvs ''serverContent'' = Some v \<and> v \<noteq> PyNone
           \<longrightarrow> (\<exists>x. validate_ServerContent L v = Inr x \<and> serverContent evt = Some x)"
    and "\<forall>v. map_of kvs ''toolCall'' = Some v \<and> v \<noteq> PyNone
           \<longrightarrow> (\<exists>x. validate_ToolCall v = Inr x \<and> toolCall evt = Some x)"
    and "\<forall>v. map_of kvs ''usageMetadata'' = Some v \<and> v \<noteq> PyNone
           \<longrightarrow> (\<exists>x. validate_UsageMetadata L v = Inr x \<and> usageMetadata evt = Some x)"
proof -
  note f = validate_ServerEvent_fields [OF assms(2)]
  show "map_of kvs ''setupComplete'' = None \<longrightarrow> setupComplete evt = None"
    and "\<forall>v. map_of kvs ''setupComplete'' = Some v \<and> v \<noteq> PyNone
           \<longrightarrow> (\<exists>x. validate_SetupComplete v = Inr x \<and> setupComplete evt = Some x)"
    using optional_field_maps [OF f(1)] by blast+
  show "map_of kvs ''serverContent'' = None \<longrightarrow> serverContent evt = None"
    and sc: "\<forall>v. map_of kvs ''serverContent'' = Some v \<and> v \<noteq> PyNone
           \<longrightarrow> (\<exists>x. validate_ServerContent L v = Inr x \<and> serverContent evt = Some x)"
    using optional_field_maps [OF f(2)] by blast+
  show "map_of kvs ''toolCall'' = None \<longrightarrow> toolCall evt = None"
    and "\<forall>v. map_of kvs ''toolCall'' = Some v \<and> v \<noteq> PyNone
           \<longrightarrow> (\<exists>x. validate_ToolCall v = Inr x \<and> toolCall evt = Some x)"
    using optional_field_maps [OF f(3)] by blast+
  show "map_of kvs ''usageMetadata'' = None \<longrightarrow> usageMetadata evt = None"
    and "\<forall>v. map_of kvs ''usageMetadata'' = Some v \<and> v \<noteq> PyNone
           \<longrightarrow> (\<exists>x. validate_UsageMetadata L v = Inr x \<and> usageMetadata evt = Some x)"
    using optional_field_maps [OF f(4)] by blast+
  have "try_block L s = Inr evt"
  proof (cases "map_of kvs ''serverContent''")
    case None
    then show ?thesis using assms(2) by (simp add: try_block_dict [OF assms(1)])
  next
    case (Some v)
    then have "v \<noteq> PyNone" using assms(3) by simp
    then obtain x where "validate_ServerContent L v = Inr x" using sc Some by blast
    then obtain c where "v = PyDict c" using validate_ServerContent_is_dict by blast
    then show ?thesis using Some assms(2)
      by (simp add: try_block_dict [OF assms(1)] exn_bind_def)
  qed
  then show "fst (parse_server_event L s logger) = Some evt"
    by (simp add: parse_server_event_result)
qed

lemma example_loads_turn_complete:
  "json_loads example_library msg_turn_complete
     = Inr (PyDict [(''serverContent'', PyDict [(''turnComplete'', PyBool True)])])"
  by (simp add: example_library_def example_loads_def msg_setup_def msg_null_content_def
        msg_turn_complete_def)

text \<open>The scenario with \<^verbatim>\<open>turnComplete\<close>: the flag is \<open>True\<close> and \<open>modelTurn\<close> is absent.\<close>

lemma parse_msg_turn_complete:
  "fst (parse_server_event example_library msg_turn_complete logger)
     = Some \<lparr>setupComplete = None,
             serverContent = Some \<lparr>modelTurn = None, interrupted = None,
               turnComplete = Some True, inputTranscription = None,
               outputTranscription = None, groundingMetadata = None\<rparr>,
             toolCall = None, usageMetadata = None\<rparr>"
  by (simp add: parse_server_event_result try_block_dict [OF example_loads_turn_complete]
        validate_ServerEvent_def validate_ServerContent_def validate_model_def
        field_with_default_def nullable_def exn_bind_def validate_bool_def)

text \<open>
  The scenario with \<^verbatim>\<open>toolCall\<close>: one function call, with an empty \<^verbatim>\<open>args\<close> mapping.
\<close>

lemma validate_tool_call_scenario:
  "validate_ServerEvent L
     (PyDict [(''toolCall'',
        PyDict [(''functionCalls'',
          PyList [PyDict [(''id'', PyStr ''1''), (''name'', PyStr ''foo''),
                          (''args'', PyDict [])]])])])
   = Inr \<lparr>setupComplete = None, serverContent = None,
          toolCall = Some \<lparr>functionCalls = [\<lparr>id' = ''1'', name = ''foo'', args = []\<rparr>]\<rparr>,
          usageMetadata = None\<rparr>"
  by (simp add: validate_ServerEvent_def validate_ToolCall_def validate_FunctionCall_def
        validate_model_def field_with_default_def required_field_def nullable_def
        exn_bind_def validate_list_def validate_str_def validate_dict_def)

lemma example_loads_null_content:
  "json_loads example_library msg_null_content = Inr (PyDict [(''serverContent'', PyNone)])"
  by (simp add: example_library_def example_loads_def msg_setup_def msg_null_content_def)

text \<open>
  C2. The claim is that every wire payload that is a valid \<^verbatim>\<open>ServerEvent\<close> decodes to an
  event with the present fields mapped and the absent fields \<open>None\<close>. The field
  \<^verbatim>\<open>serverContent\<close> is declared \<^verbatim>\<open>Optional[ServerContent]\<close>, so the payload
  \<^verbatim>\<open>{"serverContent": null}\<close> is valid: \<^verbatim>\<open>ServerEvent.model_validate\<close> accepts it, with every
  field \<open>None\<close>. But before validating, \<^verbatim>\<open>parse_server_event\<close> looks for the key
  \<^verbatim>\<open>groundingMetadata\<close> in the value of \<^verbatim>\<open>serverContent\<close>; on \<^verbatim>\<open>None\<close> the membership test
  raises \<^verbatim>\<open>TypeError\<close>, the handler catches it, and the function returns \<open>None\<close>.
\<close>

theorem null_server_content_is_dropped:
  assumes "json_loads L s = Inr (PyDict [(''serverContent'', PyNone)])"
  shows "validate_ServerEvent L (PyDict [(''serverContent'', PyNone)])
           = Inr \<lparr>setupComplete = None, serverContent = None, toolCall = None,
                  usageMetadata = None\<rparr>
       \<and> try_block L s = Inl TypeError
       \<and> fst (parse_server_event L s logger) = None"
proof -
  have "try_block L s = Inl TypeError"
    by (simp add: try_block_dict [OF assms] exn_bind_def)
  then show ?thesis
    by (simp add: parse_server_event_result validate_ServerEvent_def validate_model_def
          field_with_default_def nullable_def exn_bind_def)
qed

theorem null_server_content_is_dropped_witness:
  "json_loads example_library msg_null_content = Inr (PyDict [(''serverContent'', PyNone)])
   \<and> validate_ServerEvent example_library (PyDict [(''serverContent'', PyNone)])
       = Inr \<lparr>setupComplete = None, serverContent = None, toolCall = None,
              usageMetadata = None\<rparr>
   \<and> fst (parse_server_event example_library msg_null_content []) = None"
  using example_loads_null_content
    null_server_content_is_dropped [OF example_loads_null_content, of "[]"]
  by simp

end
